theory Spec2Isabelle
  imports Main "HOL-Library.Sublist"
begin

section \<open>Python values used by the aggregator\<close>

text \<open>
  The lambda in \<^verbatim>\<open>src/lambdas/aggregator.py\<close> works on three kinds of values:
  JSON trees (the FHIR template, the resource built from it, message bodies), DICOM
  element values read by pydicom, and its own two classes \<^verbatim>\<open>Instance\<close> and
  \<^verbatim>\<open>Study\<close>.  Exceptions are values of type \<open>error\<close>; a function that may raise
  returns \<open>error + 'a\<close> with \<open>Inl\<close> for the exception.
\<close>

datatype error =
    KeyError | IndexError | TypeError | ValueError | NameError | UnboundLocalError
  | AttributeError | ClientError | ParamValidationError | TransportError

definition ebind :: "error + 'a \<Rightarrow> ('a \<Rightarrow> error + 'b) \<Rightarrow> error + 'b" where
  "ebind m f = (case m of Inl e \<Rightarrow> Inl e | Inr x \<Rightarrow> f x)"

text \<open>
  A dictionary key is a string or an integer (a path segment of a template location can
  be either).  A dictionary keeps its insertion order, as a Python \<^verbatim>\<open>dict\<close> does, so it
  is an association list; floats are not modelled.
\<close>

datatype key = KStr string | KInt int

datatype json =
    JNull | JBool bool | JInt int | JStr string
  | JList "json list" | JObj "(key \<times> json) list"

text \<open>\<^verbatim>\<open>d[k] = v\<close> on a dict: an existing key keeps its place, a new key goes last.\<close>

fun dict_set :: "('k \<times> 'v) list \<Rightarrow> 'k \<Rightarrow> 'v \<Rightarrow> ('k \<times> 'v) list" where
  "dict_set [] k v = [(k, v)]"
| "dict_set ((k', v') # kvs) k v =
     (if k' = k then (k, v) # kvs else (k', v') # dict_set kvs k v)"

text \<open>Python sequence indexing: a negative index counts from the end.\<close>

definition list_index :: "nat \<Rightarrow> int \<Rightarrow> nat option" where
  "list_index n i =
     (let j = (if i < 0 then int n + i else i)
      in if 0 \<le> j \<and> j < int n then Some (nat j) else None)"

text \<open>\<^verbatim>\<open>operator.getitem(container, k)\<close>.\<close>

fun getitem :: "json \<Rightarrow> key \<Rightarrow> error + json" where
  "getitem (JObj kvs) k = (case map_of kvs k of None \<Rightarrow> Inl KeyError | Some v \<Rightarrow> Inr v)"
| "getitem (JList xs) (KInt i) =
     (case list_index (length xs) i of None \<Rightarrow> Inl IndexError | Some j \<Rightarrow> Inr (xs ! j))"
| "getitem (JList xs) (KStr s) = Inl TypeError"
| "getitem (JStr s) (KInt i) =
     (case list_index (length s) i of None \<Rightarrow> Inl IndexError | Some j \<Rightarrow> Inr (JStr [s ! j]))"
| "getitem (JStr s) (KStr t) = Inl TypeError"
| "getitem JNull k = Inl TypeError"
| "getitem (JBool b) k = Inl TypeError"
| "getitem (JInt n) k = Inl TypeError"

text \<open>\<^verbatim>\<open>container[k] = v\<close>, returning the container as it is afterwards.\<close>

fun setitem :: "json \<Rightarrow> key \<Rightarrow> json \<Rightarrow> error + json" where
  "setitem (JObj kvs) k v = Inr (JObj (dict_set kvs k v))"
| "setitem (JList xs) (KInt i) v =
     (case list_index (length xs) i of None \<Rightarrow> Inl IndexError | Some j \<Rightarrow> Inr (JList (xs[j := v])))"
| "setitem (JList xs) (KStr s) v = Inl TypeError"
| "setitem (JStr s) k v = Inl TypeError"
| "setitem JNull k v = Inl TypeError"
| "setitem (JBool b) k v = Inl TypeError"
| "setitem (JInt n) k v = Inl TypeError"

text \<open>\<^verbatim>\<open>reduce(getitem, mapList, dataDict)\<close>: walk down the tree along a path.\<close>

fun reduce_getitem :: "key list \<Rightarrow> json \<Rightarrow> error + json" where
  "reduce_getitem [] d = Inr d"
| "reduce_getitem (k # ks) d =
     (case getitem d k of Inl e \<Rightarrow> Inl e | Inr c \<Rightarrow> reduce_getitem ks c)"

text \<open>
  The container reached by \<open>reduce_getitem\<close> is an object inside the tree, and Python
  mutates it in place.  Seen from the root that is the tree with the subtree at the path
  replaced; a string met on the way has no mutable parts and is left as it is.
\<close>

fun store_at :: "json \<Rightarrow> key list \<Rightarrow> json \<Rightarrow> json" where
  "store_at d [] c = c"
| "store_at d (k # ks) c =
     (case getitem d k of
        Inl e \<Rightarrow> d
      | Inr child \<Rightarrow>
          (case setitem d k (store_at child ks c) of Inl e \<Rightarrow> d | Inr d' \<Rightarrow> d'))"

text \<open>
  \<^verbatim>\<open>set_nested_item\<close>: \<^verbatim>\<open>reduce(getitem, mapList[:-1], dataDict)[mapList[-1]] = val\<close>.
  The walk comes first, then \<^verbatim>\<open>mapList[-1]\<close> (an \<^verbatim>\<open>IndexError\<close> on the empty
  path), then the store.
\<close>

definition set_nested_item :: "json \<Rightarrow> key list \<Rightarrow> json \<Rightarrow> error + json" where
  "set_nested_item dataDict mapList val =
     (case reduce_getitem (butlast mapList) dataDict of
        Inl e \<Rightarrow> Inl e
      | Inr c \<Rightarrow>
          if mapList = [] then Inl IndexError
          else (case setitem c (last mapList) val of
                  Inl e \<Rightarrow> Inl e
                | Inr c' \<Rightarrow> Inr (store_at dataDict (butlast mapList) c')))"

text \<open>Iterating a value (\<^verbatim>\<open>for x in v\<close>, \<^verbatim>\<open>list(v)\<close>) and \<^verbatim>\<open>len(v)\<close>.\<close>

fun json_of_key :: "key \<Rightarrow> json" where
  "json_of_key (KStr s) = JStr s"
| "json_of_key (KInt i) = JInt i"

fun py_iter :: "json \<Rightarrow> error + json list" where
  "py_iter (JList xs) = Inr xs"
| "py_iter (JStr s) = Inr (map (\<lambda>c. JStr [c]) s)"
| "py_iter (JObj kvs) = Inr (map (\<lambda>kv. json_of_key (fst kv)) kvs)"
| "py_iter JNull = Inl TypeError"
| "py_iter (JBool b) = Inl TypeError"
| "py_iter (JInt n) = Inl TypeError"

fun py_len :: "json \<Rightarrow> error + nat" where
  "py_len (JList xs) = Inr (length xs)"
| "py_len (JStr s) = Inr (length s)"
| "py_len (JObj kvs) = Inr (length kvs)"
| "py_len JNull = Inl TypeError"
| "py_len (JBool b) = Inl TypeError"
| "py_len (JInt n) = Inl TypeError"

subsection \<open>Integers and their decimal text\<close>

definition digit_char :: "nat \<Rightarrow> char" where
  "digit_char d = char_of (48 + d)"

fun show_nat :: "nat \<Rightarrow> string" where
  "show_nat n = (if n < 10 then [digit_char n] else show_nat (n div 10) @ [digit_char (n mod 10)])"

declare show_nat.simps [simp del]

definition show_int :: "int \<Rightarrow> string" where
  "show_int i = (if i < 0 then CHR ''-'' # show_nat (nat (- i)) else show_nat (nat i))"

text \<open>
  \<^verbatim>\<open>int(s)\<close> on a string: surrounding white space is dropped, one sign is allowed, then
  decimal digits, where single underscores may stand between digits.  A character stands
  for the code point of its number.  The white space \<^verbatim>\<open>int\<close> drops is tab to carriage
  return and the blank, and of the code points from 128 on the two that are spaces
  (NEL and the no-break space); the separators 28 to 31 are not dropped.
\<close>

definition is_space :: "char \<Rightarrow> bool" where
  "is_space c = (of_char c \<in> {9, 10, 11, 12, 13, 32, 133, 160 :: nat})"

definition is_digit :: "char \<Rightarrow> bool" where
  "is_digit c = (48 \<le> (of_char c :: nat) \<and> (of_char c :: nat) \<le> 57)"

fun digits_value :: "nat \<Rightarrow> string \<Rightarrow> nat option" where
  "digits_value acc [] = Some acc"
| "digits_value acc [c] = (if is_digit c then Some (10 * acc + (of_char c - 48)) else None)"
| "digits_value acc (c # d # cs) =
     (if is_digit c then
        (if d = CHR ''_'' then
           (case cs of [] \<Rightarrow> None
            | e # es \<Rightarrow> if is_digit e then digits_value (10 * acc + (of_char c - 48)) cs else None)
         else digits_value (10 * acc + (of_char c - 48)) (d # cs))
      else None)"

definition strip :: "string \<Rightarrow> string" where
  "strip s = rev (dropWhile is_space (rev (dropWhile is_space s)))"

definition int_of_string :: "string \<Rightarrow> error + int" where
  "int_of_string s =
     (let t = strip s;
          neg = (t \<noteq> [] \<and> hd t = CHR ''-'');
          ds = (if t \<noteq> [] \<and> (hd t = CHR ''-'' \<or> hd t = CHR ''+'') then tl t else t)
      in if ds = [] then Inl ValueError
         else (case digits_value 0 ds of
                 None \<Rightarrow> Inl ValueError
               | Some n \<Rightarrow> Inr (if neg then - int n else int n)))"

section \<open>DICOM element values and the outside world\<close>

text \<open>
  The value of a DICOM element as pydicom hands it over: text (UI, LO, DA, CS), an
  integer (IS) or \<^verbatim>\<open>None\<close> for an empty element.  A data set maps a tag, written as
  the pair of strings the lambda indexes it with, to its value.
\<close>

datatype elem = EStr string | EInt int | ENone

type_synonym dataset = "((string \<times> string) \<times> elem) list"

fun json_of_elem :: "elem \<Rightarrow> json" where
  "json_of_elem (EStr s) = JStr s"
| "json_of_elem (EInt n) = JInt n"
| "json_of_elem ENone = JNull"

fun py_str :: "elem \<Rightarrow> string" where
  "py_str (EStr s) = s"
| "py_str (EInt n) = show_int n"
| "py_str ENone = ''None''"

fun py_int :: "elem \<Rightarrow> error + int" where
  "py_int (EInt n) = Inr n"
| "py_int (EStr s) = int_of_string s"
| "py_int ENone = Inl TypeError"

text \<open>
  What \<^verbatim>\<open>s3.get_object\<close> followed by \<^verbatim>\<open>pyd.dcmread\<close> does for one object: raise an
  exception the lambda does not catch (a missing key, no access), raise
  \<^verbatim>\<open>InvalidDicomError\<close> or \<^verbatim>\<open>TypeError\<close> (which \<^verbatim>\<open>read_tags_from_s3\<close> catches), or
  return the data set.
\<close>

datatype s3_read = S3Raises error | NotDicom | Dataset dataset

text \<open>The field-mapping file: \<^verbatim>\<open>template_map\<close> entries (key, location) and \<^verbatim>\<open>tags_to_fhir\<close>.\<close>

record template_map =
  template_entries :: "(string \<times> key list) list"
  tags_to_fhir :: "string list"

text \<open>
  The services the lambda calls.  \<open>s3_dicom bucket key\<close> is the read of one SOP
  instance, \<open>s3_template\<close> the read of the template and its map
  (\<^verbatim>\<open>_template_from_s3\<close>), \<open>sqs_send body\<close> the exception that
  \<^verbatim>\<open>sqs.send_message\<close> raises for a message body (\<open>None\<close> when the message is
  accepted), \<open>healthlake endpoint resource\<close> the signed POST with the status code and
  text of the answer.
\<close>

record world =
  s3_dicom :: "string \<Rightarrow> string \<Rightarrow> s3_read"
  s3_template :: "error + (json \<times> template_map)"
  sqs_send :: "json \<Rightarrow> error option"
  healthlake :: "string \<Rightarrow> json \<Rightarrow> error + (int \<times> string)"
  endpoint_base :: string

text \<open>What one invocation did to the outside: messages sent to the bad-instance queue, POSTs made.\<close>

record effects =
  sent :: "json list"
  posted :: "(string \<times> json) list"

definition no_effects :: effects where
  "no_effects = \<lparr>sent = [], posted = []\<rparr>"

section \<open>Instance\<close>

record Instance =
  sop_bucket :: string
  sop_key :: string
  dcm :: dataset
  study_uid :: elem
  series_uid :: elem
  series_number :: elem
  instance_uid :: elem
  patient_id :: elem
  study_date :: elem
  instance_number :: elem
  modality :: elem
  s3_url :: string

text \<open>
  \<^verbatim>\<open>read_tags_from_s3\<close>.  boto3 refuses a bucket or key that is not a string.  When the
  bytes are not DICOM the handler's \<^verbatim>\<open>logger.error(...format(key))\<close> names \<^verbatim>\<open>key\<close>,
  which is neither a local nor a global of the module: a \<^verbatim>\<open>NameError\<close> leaves the
  handler.
\<close>

definition read_tags_from_s3 :: "world \<Rightarrow> json \<Rightarrow> json \<Rightarrow> error + dataset" where
  "read_tags_from_s3 w b k =
     (case (b, k) of
        (JStr bs, JStr ks) \<Rightarrow>
          (case s3_dicom w bs ks of
             S3Raises e \<Rightarrow> Inl e
           | NotDicom \<Rightarrow> Inl NameError
           | Dataset d \<Rightarrow> Inr d)
      | _ \<Rightarrow> Inl ParamValidationError)"

text \<open>\<^verbatim>\<open>dcm[g, e].value\<close>: a \<^verbatim>\<open>KeyError\<close> when the data set has no such element.\<close>

definition tag_value :: "dataset \<Rightarrow> string \<Rightarrow> string \<Rightarrow> error + elem" where
  "tag_value d g e = (case map_of d (g, e) of None \<Rightarrow> Inl KeyError | Some v \<Rightarrow> Inr v)"

fun the_str :: "json \<Rightarrow> string" where
  "the_str (JStr s) = s"
| "the_str j = []"

text \<open>\<^verbatim>\<open>Instance.__init__\<close> with \<^verbatim>\<open>read_instance\<close>: the eight mandatory elements, in the source's order.\<close>

definition read_instance :: "world \<Rightarrow> json \<Rightarrow> json \<Rightarrow> error + Instance" where
  "read_instance w b k =
     ebind (read_tags_from_s3 w b k) (\<lambda>d.
     ebind (tag_value d ''0020'' ''000D'') (\<lambda>v_study.
     ebind (tag_value d ''0020'' ''000E'') (\<lambda>v_series.
     ebind (tag_value d ''0008'' ''0018'') (\<lambda>v_inst.
     ebind (tag_value d ''0010'' ''0020'') (\<lambda>v_patient.
     ebind (tag_value d ''0008'' ''0020'') (\<lambda>v_date.
     ebind (tag_value d ''0020'' ''0013'') (\<lambda>v_number.
     ebind (tag_value d ''0020'' ''0011'') (\<lambda>v_sernum.
     ebind (tag_value d ''0008'' ''0060'') (\<lambda>v_modality.
       Inr \<lparr>sop_bucket = the_str b, sop_key = the_str k, dcm = d,
            study_uid = v_study, series_uid = v_series, series_number = v_sernum,
            instance_uid = v_inst, patient_id = v_patient, study_date = v_date,
            instance_number = v_number, modality = v_modality,
            s3_url = ''s3://'' @ the_str b @ ''/'' @ the_str k\<rparr>)))))))))"

section \<open>Study\<close>

record Study =
  bucket :: json
  instance_keys :: json
  uid :: elem
  instance_rep :: "Instance option"
  series :: "(elem \<times> Instance list) list"
  series_fhir :: json
  imagingstudy_fhir :: json

text \<open>\<^verbatim>\<open>add_instance\<close>: append to the series' list, or start the series at the end of the dict.\<close>

definition add_instance :: "Study \<Rightarrow> Instance \<Rightarrow> Study" where
  "add_instance st inst =
     (case map_of (series st) (series_uid inst) of
        Some sops \<Rightarrow> st\<lparr>series := dict_set (series st) (series_uid inst) (sops @ [inst])\<rparr>
      | None \<Rightarrow> st\<lparr>series := dict_set (series st) (series_uid inst) [inst]\<rparr>)"

text \<open>
  \<^verbatim>\<open>sqs.send_message\<close> for one message body: the exception of the queue, or the body
  that was sent.
\<close>

definition send_message :: "world \<Rightarrow> json \<Rightarrow> error + json" where
  "send_message w message_body =
     (case sqs_send w message_body of Some e \<Rightarrow> Inl e | None \<Rightarrow> Inr message_body)"

text \<open>
  \<^verbatim>\<open>to_dl_queue\<close>: it builds the body of one message and sends it.
  \<^verbatim>\<open>list(inst_key)\<close> iterates the key.  An exception of \<^verbatim>\<open>sqs.send_message\<close> is
  not caught.
\<close>

definition to_dl_queue :: "world \<Rightarrow> Study \<Rightarrow> json \<Rightarrow> error + json" where
  "to_dl_queue w st inst_key =
     ebind (py_iter inst_key) (\<lambda>parts.
       send_message w (JObj [(KStr ''bucket'', bucket st), (KStr ''instances'', JList parts)]))"

text \<open>The body of the loop of \<^verbatim>\<open>load\<close> for one key; \<open>q\<close> are the messages sent so far.\<close>

definition load_key :: "world \<Rightarrow> Study \<Rightarrow> json list \<Rightarrow> json \<Rightarrow> (error + Study) \<times> json list" where
  "load_key w st q k =
     (case read_instance w (bucket st) k of
        Inl e \<Rightarrow> (Inl e, q)
      | Inr sop \<Rightarrow>
          (let (r, q') =
             (if uid st = EStr [] then (Inr (add_instance (st\<lparr>uid := study_uid sop\<rparr>) sop), q)
              else if uid st = study_uid sop then (Inr (add_instance st sop), q)
              else if uid st \<noteq> study_uid sop then
                (case to_dl_queue w st k of
                   Inl e \<Rightarrow> (Inl e, q)
                 | Inr m \<Rightarrow> (Inr st, q @ [m]))
              else (Inr (add_instance st sop), q))
           in (case r of
                 Inl e \<Rightarrow> (Inl e, q')
               | Inr st' \<Rightarrow>
                   (if instance_rep st' = None then (Inr (st'\<lparr>instance_rep := Some sop\<rparr>), q')
                    else (Inr st', q')))))"

fun load_keys :: "world \<Rightarrow> Study \<Rightarrow> json list \<Rightarrow> json list \<Rightarrow> (error + Study) \<times> json list" where
  "load_keys w st q [] = (Inr st, q)"
| "load_keys w st q (k # ks) =
     (case load_key w st q k of
        (Inl e, q') \<Rightarrow> (Inl e, q')
      | (Inr st', q') \<Rightarrow> load_keys w st' q' ks)"

definition load :: "world \<Rightarrow> Study \<Rightarrow> (error + Study) \<times> json list" where
  "load w st =
     (case py_iter (instance_keys st) of
        Inl e \<Rightarrow> (Inl e, [])
      | Inr ks \<Rightarrow> load_keys w st [] ks)"

text \<open>\<^verbatim>\<open>Study(bucket, instance_keys)\<close>.\<close>

definition new_study :: "json \<Rightarrow> json \<Rightarrow> Study" where
  "new_study b ks =
     \<lparr>bucket = b, instance_keys = ks, uid = EStr [], instance_rep = None, series = [],
      series_fhir = JObj [], imagingstudy_fhir = JObj []\<rparr>"

definition Study_init :: "world \<Rightarrow> json \<Rightarrow> json \<Rightarrow> (error + Study) \<times> json list" where
  "Study_init w b ks = load w (new_study b ks)"

section \<open>From the study to the FHIR resource\<close>

text \<open>\<^verbatim>\<open>_instance_to_FHIR\<close>.\<close>

definition instance_to_FHIR :: "Instance \<Rightarrow> error + json" where
  "instance_to_FHIR inst =
     ebind (py_int (instance_number inst)) (\<lambda>n.
       Inr (JObj
         [(KStr ''uid'', json_of_elem (instance_uid inst)),
          (KStr ''sopClass'',
             JObj [(KStr ''system'', JStr ''urn:ietf:rfc:3986''),
                   (KStr ''code'', JStr ''urn:oid:1.2.840.10008.5.1.4.1.1.2'')]),
          (KStr ''number'', JInt n),
          (KStr ''extension'',
             JList [JObj [(KStr ''url'', JStr ''http://healthlake.amazonaws.com/s3-uri/''),
                          (KStr ''valueUri'', JStr (s3_url inst))]])]))"

fun instances_to_FHIR :: "Instance list \<Rightarrow> error + json list" where
  "instances_to_FHIR [] = Inr []"
| "instances_to_FHIR (sop # sops) =
     ebind (instance_to_FHIR sop) (\<lambda>j.
     ebind (instances_to_FHIR sops) (\<lambda>js. Inr (j # js)))"

text \<open>
  \<^verbatim>\<open>_series_to_FHIR\<close>: the series-level fields come from \<^verbatim>\<open>sops[0]\<close>, the instance
  list from the loop over \<^verbatim>\<open>sops\<close>.
\<close>

definition series_to_FHIR :: "Study \<Rightarrow> elem \<Rightarrow> error + json" where
  "series_to_FHIR st series_key =
     (case map_of (series st) series_key of
        None \<Rightarrow> Inl KeyError
      | Some sops \<Rightarrow>
          (case sops of
             [] \<Rightarrow> Inl IndexError
           | sop0 # rest \<Rightarrow>
               ebind (py_int (series_number sop0)) (\<lambda>n.
               ebind (instances_to_FHIR sops) (\<lambda>js.
                 Inr (JObj
                   [(KStr ''uid'', JStr (py_str (series_uid sop0))),
                    (KStr ''number'', JInt n),
                    (KStr ''modality'',
                       JObj [(KStr ''system'', JStr ''http://dicom.nema.org/resources/ontology/DCM''),
                             (KStr ''code'', json_of_elem (modality sop0))]),
                    (KStr ''description'', JStr '' ''),
                    (KStr ''numberOfInstances'', JInt (int (length sops))),
                    (KStr ''bodySite'',
                       JObj [(KStr ''system'', JStr ''http://snomed.info/sct''),
                             (KStr ''code'', JStr ''123037004''),
                             (KStr ''display'', JStr ''Body structure'')]),
                    (KStr ''endpoint'',
                       JList [JObj [(KStr ''reference'', JStr ''Endpoint/example-wadors'')]]),
                    (KStr ''instance'', JList js)])))))"

fun series_list_to_FHIR :: "Study \<Rightarrow> elem list \<Rightarrow> error + json list" where
  "series_list_to_FHIR st [] = Inr []"
| "series_list_to_FHIR st (k # ks) =
     ebind (series_to_FHIR st k) (\<lambda>j.
     ebind (series_list_to_FHIR st ks) (\<lambda>js. Inr (j # js)))"

text \<open>\<^verbatim>\<open>_series_to_fhir\<close>: one fragment per key of \<^verbatim>\<open>self.series\<close>, in the dict's order.\<close>

definition series_to_fhir :: "Study \<Rightarrow> error + Study" where
  "series_to_fhir st =
     ebind (series_list_to_FHIR st (map fst (series st))) (\<lambda>frags.
       Inr (st\<lparr>series_fhir := JList frags\<rparr>))"

text \<open>\<^verbatim>\<open>resources.dicom_attribute_map\<close>: for a collapsed tag, \<^verbatim>\<open>key0\<close>, \<^verbatim>\<open>key1\<close> and \<^verbatim>\<open>element_prefix\<close>.\<close>

definition dicom_attribute_map :: "(string \<times> string \<times> string \<times> string) list" where
  "dicom_attribute_map =
     [(''(0020,000D)'', ''0020'', ''000D'', ''''),
      (''(0020,000E)'', ''0020'', ''000E'', ''''),
      (''(0008,0018)'', ''0008'', ''0018'', ''''),
      (''(0010,0020)'', ''0010'', ''0020'', ''Patient/''),
      (''(0008,0020)'', ''0008'', ''0020'', ''''),
      (''(0008,0060)'', ''0008'', ''0060'', ''''),
      (''(0018,0015)'', ''0018'', ''0015'', '''')]"

text \<open>\<^verbatim>\<open>fhir_map\<close>: the dict built from the \<^verbatim>\<open>template_map\<close> entries; a later entry overwrites.\<close>

fun fhir_map_of :: "(string \<times> key list) list \<Rightarrow> (string \<rightharpoonup> key list) \<Rightarrow> (string \<rightharpoonup> key list)" where
  "fhir_map_of [] m = m"
| "fhir_map_of ((k, loc) # es) m = fhir_map_of es (m(k \<mapsto> loc))"

text \<open>
  The \<^verbatim>\<open>try\<close> block of the first loop of \<^verbatim>\<open>_update_fhir_template\<close>.  \<open>tv\<close> is the local
  \<^verbatim>\<open>tag_value\<close> (\<open>None\<close> while it is unbound).  A \<^verbatim>\<open>KeyError\<close> of the data set is caught
  and leaves \<open>tv\<close> as it was; an \<^verbatim>\<open>AttributeError\<close> (no representative instance) and
  a \<^verbatim>\<open>TypeError\<close> (prefix joined to a value that is not text) are not caught.
\<close>

definition read_tag :: "Study \<Rightarrow> string \<times> string \<times> string \<Rightarrow> json option \<Rightarrow> error + json option" where
  "read_tag st tmp_map tv =
     (case tmp_map of (tmp_tag0, tmp_tag1, element_prefix) \<Rightarrow>
        (case instance_rep st of
           None \<Rightarrow> Inl AttributeError
         | Some inst \<Rightarrow>
             (case tag_value (dcm inst) tmp_tag0 tmp_tag1 of
                Inl e \<Rightarrow> Inr tv
              | Inr v \<Rightarrow>
                  if element_prefix \<noteq> [] then
                    (case v of EStr s \<Rightarrow> Inr (Some (JStr (element_prefix @ s)))
                     | EInt n \<Rightarrow> Inl TypeError
                     | ENone \<Rightarrow> Inl TypeError)
                  else Inr (Some (json_of_elem v)))))"

text \<open>The first loop: one pass per entry of \<^verbatim>\<open>tags_to_fhir\<close>, collecting \<^verbatim>\<open>updates\<close>.\<close>

fun collect_updates ::
  "Study \<Rightarrow> (string \<rightharpoonup> key list) \<Rightarrow> string list \<Rightarrow> json option \<Rightarrow> (key list \<times> json) list
     \<Rightarrow> error + (key list \<times> json) list" where
  "collect_updates st fhir_map [] tv updates = Inr updates"
| "collect_updates st fhir_map (tag_to_map # tags) tv updates =
     (case map_of dicom_attribute_map tag_to_map of
        None \<Rightarrow> Inl KeyError
      | Some tmp_map \<Rightarrow>
          ebind (read_tag st tmp_map tv) (\<lambda>tv'.
            (case fhir_map tag_to_map of
               None \<Rightarrow> Inl KeyError
             | Some template_loc \<Rightarrow>
                 (case tv' of
                    None \<Rightarrow> Inl UnboundLocalError
                  | Some val \<Rightarrow>
                      collect_updates st fhir_map tags tv' (updates @ [(template_loc, val)])))))"

text \<open>
  The second loop: each update is written with \<^verbatim>\<open>set_nested_item\<close>; a \<^verbatim>\<open>KeyError\<close> or
  \<^verbatim>\<open>IndexError\<close> is logged and the resource stays as it was.
\<close>

fun apply_updates :: "json \<Rightarrow> (key list \<times> json) list \<Rightarrow> error + json" where
  "apply_updates resource [] = Inr resource"
| "apply_updates resource ((map_list, val) # us) =
     (case set_nested_item resource map_list val of
        Inl e \<Rightarrow> if e = KeyError \<or> e = IndexError then apply_updates resource us else Inl e
      | Inr resource' \<Rightarrow> apply_updates resource' us)"

text \<open>The sum of \<^verbatim>\<open>len(ser['instance'])\<close> over the series fragments.\<close>

fun count_instances :: "json list \<Rightarrow> error + nat" where
  "count_instances [] = Inr 0"
| "count_instances (ser # sers) =
     ebind (getitem ser (KStr ''instance'')) (\<lambda>insts.
     ebind (py_len insts) (\<lambda>n.
     ebind (count_instances sers) (\<lambda>m. Inr (n + m))))"

text \<open>\<^verbatim>\<open>_transform_fhir\<close>.\<close>

definition transform_fhir :: "Study \<Rightarrow> error + Study" where
  "transform_fhir st =
     (case imagingstudy_fhir st of
        JObj kvs \<Rightarrow>
          if KStr ''numberOfInstances'' \<in> fst ` set kvs then
            ebind (py_iter (series_fhir st)) (\<lambda>sers.
            ebind (count_instances sers) (\<lambda>num.
              Inr (st\<lparr>imagingstudy_fhir := JObj (dict_set kvs (KStr ''numberOfInstances'') (JInt (int num)))\<rparr>)))
          else Inr st
      | other \<Rightarrow> Inl AttributeError)"

text \<open>\<^verbatim>\<open>_update_fhir_template\<close>; \<^verbatim>\<open>deepcopy\<close> is the identity on values.\<close>

definition update_fhir_template :: "Study \<Rightarrow> json \<Rightarrow> template_map \<Rightarrow> error + Study" where
  "update_fhir_template st template tmap =
     (let fhir_map = fhir_map_of (template_entries tmap) Map.empty in
      ebind (collect_updates st fhir_map (tags_to_fhir tmap) None []) (\<lambda>updates.
      ebind (apply_updates template updates) (\<lambda>resource.
      ebind (setitem resource (KStr ''series'') (series_fhir st)) (\<lambda>resource'.
        transform_fhir (st\<lparr>imagingstudy_fhir := resource'\<rparr>)))))"

text \<open>\<^verbatim>\<open>imagingstudy\<close>, with the template and its map as \<^verbatim>\<open>_template_from_s3\<close> returned them.\<close>

definition imagingstudy :: "Study \<Rightarrow> error + (json \<times> template_map) \<Rightarrow> error + Study" where
  "imagingstudy st from_s3 =
     ebind (series_to_fhir st) (\<lambda>st1.
     ebind from_s3 (\<lambda>(template, tmap).
     ebind (update_fhir_template st1 template tmap) (\<lambda>st2.
       transform_fhir st2)))"

section \<open>Submission and the handler\<close>

text \<open>
  \<^verbatim>\<open>post_to_healthlake\<close>: the endpoint is \<^verbatim>\<open>endpoint_base + resource['resourceType']\<close>;
  the request that is sent is recorded with its endpoint.
\<close>

definition post_to_healthlake :: "world \<Rightarrow> Study \<Rightarrow> (error + (int \<times> string)) \<times> (string \<times> json) list" where
  "post_to_healthlake w st =
     (let resource = imagingstudy_fhir st in
      case getitem resource (KStr ''resourceType'') of
        Inl e \<Rightarrow> (Inl e, [])
      | Inr (JStr rt) \<Rightarrow>
          (healthlake w (endpoint_base w @ rt) resource, [(endpoint_base w @ rt, resource)])
      | Inr other \<Rightarrow> (Inl TypeError, []))"

record response =
  statusCode :: int
  headers :: "(string \<times> string) list"
  body :: string

text \<open>
  The branch on the shape of the body.  In the last branch the source builds a
  \<^verbatim>\<open>ValueError\<close> and does not raise it, so neither \<^verbatim>\<open>bucket\<close> nor \<^verbatim>\<open>instances\<close> is
  bound afterwards (\<open>None\<close>).
\<close>

definition bucket_and_instances :: "json \<Rightarrow> error + (json \<times> json) option" where
  "bucket_and_instances b =
     (case b of
        JObj kvs \<Rightarrow>
          ebind (getitem b (KStr ''bucket'')) (\<lambda>bkt.
          ebind (getitem b (KStr ''instances'')) (\<lambda>insts. Inr (Some (bkt, insts))))
      | JList xs \<Rightarrow>
          if length xs = 1 then
            ebind (getitem b (KInt 0)) (\<lambda>b0.
            ebind (getitem b0 (KStr ''bucket'')) (\<lambda>bkt.
            ebind (getitem b (KInt 0)) (\<lambda>b0'.
            ebind (getitem b0' (KStr ''instances'')) (\<lambda>insts. Inr (Some (bkt, insts))))))
          else Inr None
      | other \<Rightarrow> Inr None)"

text \<open>How the body of a \<^verbatim>\<open>for\<close> loop ends: with \<^verbatim>\<open>return\<close>, or by reaching its last line.\<close>

datatype 'a flow = Return 'a | NextIteration

text \<open>
  The body of the loop of \<^verbatim>\<open>sqs_lambda_handler\<close> for one record; \<open>payload\<close> is what
  \<^verbatim>\<open>json.loads(payload['body'])\<close> gives.
\<close>

definition handle_payload :: "world \<Rightarrow> error + json \<Rightarrow> (error + response flow) \<times> effects" where
  "handle_payload w payload =
     (case ebind payload bucket_and_instances of
        Inl e \<Rightarrow> (Inl e, no_effects)
      | Inr None \<Rightarrow> (Inl UnboundLocalError, no_effects)
      | Inr (Some (bkt, insts)) \<Rightarrow>
          (case Study_init w bkt insts of
             (Inl e, q) \<Rightarrow> (Inl e, \<lparr>sent = q, posted = []\<rparr>)
           | (Inr astudy, q) \<Rightarrow>
               (case imagingstudy astudy (s3_template w) of
                  Inl e \<Rightarrow> (Inl e, \<lparr>sent = q, posted = []\<rparr>)
                | Inr astudy' \<Rightarrow>
                    (case post_to_healthlake w astudy' of
                       (Inl e, ps) \<Rightarrow> (Inl e, \<lparr>sent = q, posted = ps\<rparr>)
                     | (Inr (status_code, txt), ps) \<Rightarrow>
                         (Inr (Return
                            \<lparr>statusCode = status_code,
                             headers = [(''Content-Type'', ''text/plain'')],
                             body = ''POST to HealthLake returned  '' @ show_int status_code
                                      @ '','' @ txt @ [CHR 0x0A]\<rparr>),
                          \<lparr>sent = q, posted = ps\<rparr>)))))"

text \<open>The loop over \<^verbatim>\<open>event['Records']\<close>; falling out of it the handler returns \<^verbatim>\<open>None\<close>.\<close>

fun for_payloads :: "world \<Rightarrow> (error + json) list \<Rightarrow> (error + response option) \<times> effects" where
  "for_payloads w [] = (Inr None, no_effects)"
| "for_payloads w (p # ps) =
     (case handle_payload w p of
        (Inl e, eff) \<Rightarrow> (Inl e, eff)
      | (Inr (Return r), eff) \<Rightarrow> (Inr (Some r), eff)
      | (Inr NextIteration, eff) \<Rightarrow>
          (case for_payloads w ps of
             (r, eff') \<Rightarrow> (r, \<lparr>sent = sent eff @ sent eff', posted = posted eff @ posted eff'\<rparr>)))"

definition sqs_lambda_handler :: "world \<Rightarrow> (error + json) list \<Rightarrow> (error + response option) \<times> effects" where
  "sqs_lambda_handler w records = for_payloads w records"

section \<open>Notions of the specification\<close>





text \<open>Reading the output document: a series fragment's uid and the storage URIs of its instances.\<close>

definition fragment_uid :: "json \<Rightarrow> error + json" where
  "fragment_uid frag = getitem frag (KStr ''uid'')"

definition fragment_uris :: "json \<Rightarrow> (error + json) list" where
  "fragment_uris frag =
     (case getitem frag (KStr ''instance'') of
        Inr (JList js) \<Rightarrow>
          map (reduce_getitem [KStr ''extension'', KInt 0, KStr ''valueUri'']) js
      | other \<Rightarrow> [])"

section \<open>Example data\<close>

definition ex_dataset :: "string \<Rightarrow> string \<Rightarrow> string \<Rightarrow> int \<Rightarrow> dataset" where
  "ex_dataset study ser iuid n =
     [((''0020'', ''000D''), EStr study), ((''0020'', ''000E''), EStr ser),
      ((''0008'', ''0018''), EStr iuid), ((''0010'', ''0020''), EStr ''P1''),
      ((''0008'', ''0020''), EStr ''20210301''), ((''0020'', ''0013''), EInt n),
      ((''0020'', ''0011''), EInt 1), ((''0008'', ''0060''), EStr ''CT'')]"

definition ex_instance :: "string \<Rightarrow> string \<Rightarrow> string \<Rightarrow> string \<Rightarrow> int \<Rightarrow> Instance" where
  "ex_instance k study ser iuid n =
     \<lparr>sop_bucket = ''b'', sop_key = k, dcm = ex_dataset study ser iuid n,
      study_uid = EStr study, series_uid = EStr ser, series_number = EInt 1,
      instance_uid = EStr iuid, patient_id = EStr ''P1'', study_date = EStr ''20210301'',
      instance_number = EInt n, modality = EStr ''CT'', s3_url = ''s3://b/'' @ k\<rparr>"

text \<open>
  The bucket: \<open>k1\<close>, \<open>k2\<close>, \<open>k4\<close>, \<open>k6\<close>, \<open>k7\<close> belong to study \<open>S1\<close> (series \<open>ser1\<close> and
  \<open>ser2\<close>), \<open>k3\<close> and \<open>k5\<close> to study \<open>S2\<close>, \<open>e0\<close> has an empty study UID, \<open>junk\<close> is
  not DICOM, and any other key is not there.
\<close>

definition ex_objects :: "(string \<times> s3_read) list" where
  "ex_objects =
     [(''k1'', Dataset (ex_dataset ''S1'' ''ser1'' ''i1'' 1)),
      (''k2'', Dataset (ex_dataset ''S1'' ''ser2'' ''i2'' 1)),
      (''k3'', Dataset (ex_dataset ''S2'' ''ser9'' ''i3'' 1)),
      (''k4'', Dataset (ex_dataset ''S1'' ''ser1'' ''i4'' 2)),
      (''k5'', Dataset (ex_dataset ''S2'' ''ser9'' ''i5'' 2)),
      (''k6'', Dataset (ex_dataset ''S1'' ''ser2'' ''i6'' 2)),
      (''k7'', Dataset (ex_dataset ''S1'' ''ser2'' ''i7'' 3)),
      (''e0'', Dataset (ex_dataset [] ''ser0'' ''i0'' 1)),
      (''junk'', NotDicom)]"

definition ex_store :: "string \<Rightarrow> string \<Rightarrow> s3_read" where
  "ex_store b k = (case map_of ex_objects k of Some r \<Rightarrow> r | None \<Rightarrow> S3Raises ClientError)"

definition ex_template :: json where
  "ex_template =
     JObj [(KStr ''resourceType'', JStr ''ImagingStudy''),
           (KStr ''status'', JStr ''available''),
           (KStr ''subject'', JObj [(KStr ''reference'', JStr ''Patient/unknown'')]),
           (KStr ''started'', JStr ''1900-01-01''),
           (KStr ''numberOfInstances'', JInt 0),
           (KStr ''note'', JStr ''body part not given'')]"

definition ex_entries :: "(string \<times> key list) list" where
  "ex_entries =
     [(''(0010,0020)'', [KStr ''subject'', KStr ''reference'']),
      (''(0008,0020)'', [KStr ''started'']),
      (''(0018,0015)'', [KStr ''note''])]"

definition ex_map :: "string list \<Rightarrow> template_map" where
  "ex_map tags = \<lparr>template_entries = ex_entries, tags_to_fhir = tags\<rparr>"

definition ex_world :: "string list \<Rightarrow> world" where
  "ex_world tags =
     \<lparr>s3_dicom = ex_store, s3_template = Inr (ex_template, ex_map tags),
      sqs_send = (\<lambda>message_body. None),
      healthlake = (\<lambda>endpoint resource. Inr (201, ''created'')),
      endpoint_base = ''https://healthlake.example/r4/''\<rparr>"

definition ex_body :: "string list \<Rightarrow> json" where
  "ex_body ks = JObj [(KStr ''bucket'', JStr ''b''), (KStr ''instances'', JList (map JStr ks))]"

text \<open>The instance that reading a key of the example bucket gives.\<close>

definition ex_inst :: "string \<Rightarrow> Instance" where
  "ex_inst k =
     (if k = ''k1'' then ex_instance ''k1'' ''S1'' ''ser1'' ''i1'' 1
      else if k = ''k2'' then ex_instance ''k2'' ''S1'' ''ser2'' ''i2'' 1
      else if k = ''k3'' then ex_instance ''k3'' ''S2'' ''ser9'' ''i3'' 1
      else if k = ''k4'' then ex_instance ''k4'' ''S1'' ''ser1'' ''i4'' 2
      else if k = ''k5'' then ex_instance ''k5'' ''S2'' ''ser9'' ''i5'' 2
      else if k = ''k6'' then ex_instance ''k6'' ''S1'' ''ser2'' ''i6'' 2
      else if k = ''e0'' then ex_instance ''e0'' [] ''ser0'' ''i0'' 1
      else ex_instance ''k7'' ''S1'' ''ser2'' ''i7'' 3)"

text \<open>The study that the keys \<open>k1, k2, k4, k6, k7\<close> load: two series, of two and of three instances.\<close>

definition ex_study :: Study where
  "ex_study =
     \<lparr>bucket = JStr ''b'',
      instance_keys = JList (map JStr [''k1'', ''k2'', ''k4'', ''k6'', ''k7'']),
      uid = EStr ''S1'', instance_rep = Some (ex_inst ''k1''),
      series = [(EStr ''ser1'', [ex_inst ''k1'', ex_inst ''k4'']),
                (EStr ''ser2'', [ex_inst ''k2'', ex_inst ''k6'', ex_inst ''k7''])],
      series_fhir = JObj [], imagingstudy_fhir = JObj []\<rparr>"

text \<open>
  A template without \<open>numberOfInstances\<close>, and a map that sends the patient id to a
  location of that name.
\<close>

definition ex_template_no_count :: json where
  "ex_template_no_count =
     JObj [(KStr ''resourceType'', JStr ''ImagingStudy''), (KStr ''status'', JStr ''available'')]"

definition ex_map_count :: template_map where
  "ex_map_count =
     \<lparr>template_entries = [(''(0010,0020)'', [KStr ''numberOfInstances''])],
      tags_to_fhir = [''(0010,0020)'']\<rparr>"

section \<open>Facts about dictionaries and nested paths\<close>

lemma map_of_dict_set_same: "map_of (dict_set kvs k v) k = Some v"
  by (induction kvs) auto


lemma dict_set_key_order:
  "map fst (dict_set kvs k v) = (if k \<in> set (map fst kvs) then map fst kvs else map fst kvs @ [k])"
  by (induction kvs) force+

lemma dict_set_keys: "fst ` set (dict_set kvs k v) = insert k (fst ` set kvs)"
proof -
  have "set (map fst (dict_set kvs k v)) = insert k (set (map fst kvs))"
    unfolding dict_set_key_order by auto
  then show ?thesis by simp
qed

lemma dict_set_idem: "dict_set (dict_set kvs k v) k v = dict_set kvs k v"
  by (induction kvs) auto



lemma map_of_own: "distinct (map fst xs) \<Longrightarrow> p \<in> set xs \<Longrightarrow> the (map_of xs (fst p)) = snd p"
  by (cases p) (simp add: map_of_is_SomeI)


lemma list_index_less: "list_index n i = Some j \<Longrightarrow> j < n"
  by (auto simp: list_index_def Let_def split: if_splits)

text \<open>Below a string there are only strings: no mapping is ever reached through one.\<close>

lemma reduce_getitem_string: "reduce_getitem ks (JStr s) = Inr c \<Longrightarrow> \<exists>t. c = JStr t"
proof (induction ks arbitrary: s)
  case Nil
  then show ?case by auto
next
  case (Cons k ks)
  then show ?case
    by (cases k) (auto split: option.splits sum.splits)
qed

lemma getitem_after_setitem:
  assumes "getitem d k = Inr child"
  shows "(\<exists>s. d = JStr s) \<or> (\<exists>d'. setitem d k x = Inr d' \<and> getitem d' k = Inr x)"
  using assms
  by (cases d; cases k) (auto simp: map_of_dict_set_same list_index_less split: option.splits)

lemma reduce_getitem_store_at:
  "reduce_getitem ks d = Inr (JObj kvs) \<Longrightarrow> reduce_getitem ks (store_at d ks c) = Inr c"
proof (induction ks arbitrary: d)
  case Nil
  then show ?case by simp
next
  case (Cons k ks)
  from Cons.prems obtain child where g: "getitem d k = Inr child"
    and r: "reduce_getitem ks child = Inr (JObj kvs)"
    by (auto split: sum.splits)
  have ih: "reduce_getitem ks (store_at child ks c) = Inr c" by (rule Cons.IH [OF r])
  from getitem_after_setitem [OF g, of "store_at child ks c"] show ?case
  proof
    assume "\<exists>s. d = JStr s"
    then obtain s where "d = JStr s" ..
    with g obtain t where "child = JStr t" by (cases k) (auto split: option.splits)
    with r reduce_getitem_string show ?thesis by blast
  next
    assume "\<exists>d'. setitem d k (store_at child ks c) = Inr d' \<and> getitem d' k = Inr (store_at child ks c)"
    then obtain d' where "setitem d k (store_at child ks c) = Inr d'"
      and "getitem d' k = Inr (store_at child ks c)" by blast
    with g ih show ?thesis by simp
  qed
qed

lemma reduce_getitem_snoc:
  "reduce_getitem (ks @ [k]) d = (case reduce_getitem ks d of Inl e \<Rightarrow> Inl e | Inr c \<Rightarrow> getitem c k)"
  by (induction ks arbitrary: d) (auto split: sum.splits)

section \<open>Facts about loading a study\<close>

lemma add_instance_eq:
  "add_instance st i =
     st\<lparr>series := dict_set (series st) (series_uid i)
            ((case map_of (series st) (series_uid i) of Some sops \<Rightarrow> sops | None \<Rightarrow> []) @ [i])\<rparr>"
  by (simp add: add_instance_def split: option.splits)

lemma load_key_bucket: "load_key w st q k = (Inr st', q') \<Longrightarrow> bucket st' = bucket st"
  by (auto simp: load_key_def Let_def add_instance_eq split: sum.splits if_splits)

lemma load_keys_bucket: "load_keys w st q ks = (Inr st', q') \<Longrightarrow> bucket st' = bucket st"
proof (induction ks arbitrary: st q)
  case Nil
  then show ?case by simp
next
  case (Cons k ks)
  then show ?case
    by (auto split: prod.splits sum.splits dest: load_key_bucket)
qed

lemma load_keys_append:
  "load_keys w st q (ks @ ks') =
     (case load_keys w st q ks of
        (Inl e, q') \<Rightarrow> (Inl e, q')
      | (Inr st', q') \<Rightarrow> load_keys w st' q' ks')"
  by (induction ks arbitrary: st q) (auto split: prod.splits sum.splits)

text \<open>The loop never reads \<^verbatim>\<open>self.instance_keys\<close> again: the field only rides along.\<close>

lemma to_dl_queue_frame: "bucket st' = bucket st \<Longrightarrow> to_dl_queue w st' k = to_dl_queue w st k"
  by (simp add: to_dl_queue_def)

lemma load_key_keys_update:
  "load_key w (st\<lparr>instance_keys := x\<rparr>) q k =
     (case load_key w st q k of
        (Inl e, q') \<Rightarrow> (Inl e, q')
      | (Inr st', q') \<Rightarrow> (Inr (st'\<lparr>instance_keys := x\<rparr>), q'))"
proof (cases "read_instance w (bucket st) k")
  case (Inl e)
  then show ?thesis by (simp add: load_key_def)
next
  case (Inr sop)
  have tq: "to_dl_queue w (st\<lparr>instance_keys := x\<rparr>) k = to_dl_queue w st k"
    by (rule to_dl_queue_frame) simp
  show ?thesis
  proof (cases "to_dl_queue w st k")
    case (Inl e)
    with tq Inr show ?thesis
      by (simp add: load_key_def add_instance_eq)
  next
    case m: (Inr m)
    with tq Inr show ?thesis
      by (simp add: load_key_def add_instance_eq)
  qed
qed

lemma load_keys_keys_update:
  "load_keys w (st\<lparr>instance_keys := x\<rparr>) q ks =
     (case load_keys w st q ks of
        (Inl e, q') \<Rightarrow> (Inl e, q')
      | (Inr st', q') \<Rightarrow> (Inr (st'\<lparr>instance_keys := x\<rparr>), q'))"
proof (induction ks arbitrary: st q)
  case Nil
  then show ?case by simp
next
  case (Cons k ks)
  show ?case
    by (simp add: load_key_keys_update Cons.IH split: prod.splits sum.splits)
qed

lemma new_study_keys: "new_study b x = (new_study b y)\<lparr>instance_keys := x\<rparr>"
  by (simp add: new_study_def)

lemma handle_payload_returns: "handle_payload w p \<noteq> (Inr NextIteration, eff)"
  by (auto simp: handle_payload_def split: sum.splits option.splits prod.splits)

subsection \<open>The series mapping is the grouping of the assembled instances\<close>










subsection \<open>One pass of the loop of \<open>load\<close>\<close>





















section \<open>Facts about the resource\<close>

subsection \<open>Series fragments\<close>

lemma instance_to_FHIR_uri:
  "instance_to_FHIR i = Inr j \<Longrightarrow>
   reduce_getitem [KStr ''extension'', KInt 0, KStr ''valueUri''] j = Inr (JStr (s3_url i))"
  by (cases "py_int (instance_number i)") (auto simp: instance_to_FHIR_def ebind_def list_index_def)

lemma instances_to_FHIR_uris:
  "instances_to_FHIR sops = Inr js \<Longrightarrow>
   map (reduce_getitem [KStr ''extension'', KInt 0, KStr ''valueUri'']) js
     = map (\<lambda>i. Inr (JStr (s3_url i))) sops"
proof (induction sops arbitrary: js)
  case Nil
  then show ?case by simp
next
  case (Cons sop sops)
  from Cons.prems obtain j js' where j: "instance_to_FHIR sop = Inr j"
    and js': "instances_to_FHIR sops = Inr js'" and "js = j # js'"
    by (auto simp: ebind_def split: sum.splits)
  with Cons.IH [OF js'] instance_to_FHIR_uri [OF j] show ?case by simp
qed

lemma instances_to_FHIR_length: "instances_to_FHIR sops = Inr js \<Longrightarrow> length js = length sops"
proof (induction sops arbitrary: js)
  case Nil
  then show ?case by simp
next
  case (Cons sop sops)
  then show ?case by (auto simp: ebind_def split: sum.splits)
qed

lemma series_to_FHIR_fragment:
  assumes "map_of (series st) k = Some (sop0 # rest)" and "series_to_FHIR st k = Inr frag"
  shows "fragment_uid frag = Inr (JStr (py_str (series_uid sop0)))"
    and "fragment_uris frag = map (\<lambda>i. Inr (JStr (s3_url i))) (sop0 # rest)"
    and "\<exists>js. getitem frag (KStr ''instance'') = Inr (JList js) \<and> length js = length (sop0 # rest)"
proof -
  from assms obtain n js where "py_int (series_number sop0) = Inr n"
    and js: "instances_to_FHIR (sop0 # rest) = Inr js"
    and frag: "getitem frag (KStr ''uid'') = Inr (JStr (py_str (series_uid sop0)))"
              "getitem frag (KStr ''instance'') = Inr (JList js)"
    by (auto simp: series_to_FHIR_def ebind_def split: sum.splits)
  from frag show "fragment_uid frag = Inr (JStr (py_str (series_uid sop0)))"
    by (simp add: fragment_uid_def)
  from frag instances_to_FHIR_uris [OF js]
  show "fragment_uris frag = map (\<lambda>i. Inr (JStr (s3_url i))) (sop0 # rest)"
    by (simp add: fragment_uris_def)
  from frag instances_to_FHIR_length [OF js]
  show "\<exists>js. getitem frag (KStr ''instance'') = Inr (JList js) \<and> length js = length (sop0 # rest)"
    by simp
qed

lemma series_to_FHIR_count:
  assumes "series_to_FHIR st k = Inr frag"
  shows "\<exists>sops js. map_of (series st) k = Some sops
           \<and> getitem frag (KStr ''instance'') = Inr (JList js) \<and> length js = length sops"
proof -
  from assms obtain sop0 rest where m: "map_of (series st) k = Some (sop0 # rest)"
    by (auto simp: series_to_FHIR_def split: option.splits list.splits)
  from series_to_FHIR_fragment(3) [OF m assms] m show ?thesis by auto
qed

lemma series_list_to_FHIR_each:
  "series_list_to_FHIR st ks = Inr frags \<Longrightarrow> map (series_to_FHIR st) ks = map Inr frags"
proof (induction ks arbitrary: frags)
  case Nil
  then show ?case by simp
next
  case (Cons k ks)
  then show ?case by (auto simp: ebind_def split: sum.splits)
qed

lemma series_to_fhir_result:
  assumes "series_to_fhir st = Inr st1"
  shows "\<exists>frags. st1 = st\<lparr>series_fhir := JList frags\<rparr>
           \<and> series_list_to_FHIR st (map fst (series st)) = Inr frags"
  using assms by (auto simp: series_to_fhir_def ebind_def split: sum.splits)



subsection \<open>Counting instances\<close>

lemma count_instances_fragments:
  "map (series_to_FHIR st) ks = map Inr frags \<Longrightarrow>
   count_instances frags = Inr (sum_list (map (\<lambda>k. length (the (map_of (series st) k))) ks))"
proof (induction ks arbitrary: frags)
  case Nil
  then show ?case by simp
next
  case (Cons k ks)
  from Cons.prems obtain f fs where frags: "frags = f # fs"
    and f: "series_to_FHIR st k = Inr f" and fs: "map (series_to_FHIR st) ks = map Inr fs"
    by (cases frags) auto
  from series_to_FHIR_count [OF f] obtain sops js where "map_of (series st) k = Some sops"
    "getitem f (KStr ''instance'') = Inr (JList js)" "length js = length sops" by blast
  with Cons.IH [OF fs] frags show ?case
    by (simp add: ebind_def)
qed

lemma count_instances_series:
  assumes "series_to_fhir st0 = Inr st1" and "distinct (map fst (series st0))"
  shows "\<exists>frags. series_fhir st1 = JList frags
           \<and> count_instances frags = Inr (sum_list (map (\<lambda>p. length (snd p)) (series st0)))"
proof -
  from series_to_fhir_result [OF assms(1)] obtain frags
    where st1: "st1 = st0\<lparr>series_fhir := JList frags\<rparr>"
      and l: "series_list_to_FHIR st0 (map fst (series st0)) = Inr frags" by blast
  have e: "map (\<lambda>k. length (the (map_of (series st0) k))) (map fst (series st0))
      = map (\<lambda>p. length (snd p)) (series st0)"
    unfolding map_map by (rule map_cong) (simp_all add: map_of_own [OF assms(2)])
  have c: "count_instances frags
      = Inr (sum_list (map (\<lambda>k. length (the (map_of (series st0) k))) (map fst (series st0))))"
    by (rule count_instances_fragments [OF series_list_to_FHIR_each [OF l]])
  from c [unfolded e] st1 show ?thesis by simp
qed

subsection \<open>What the mapper and the finalizer read and write\<close>

lemma read_tag_frame:
  "instance_rep st' = instance_rep st \<Longrightarrow> read_tag st' m tv = read_tag st m tv"
  by (simp add: read_tag_def)

lemma collect_updates_frame:
  "instance_rep st' = instance_rep st \<Longrightarrow>
   collect_updates st' fm tags tv us = collect_updates st fm tags tv us"
proof (induction tags arbitrary: tv us)
  case Nil
  then show ?case by simp
next
  case (Cons t tags)
  then show ?case
    by (simp add: read_tag_frame [of st' st] ebind_def split: option.splits sum.splits)
qed

lemma collect_updates_no_instance:
  "instance_rep st = None \<Longrightarrow>
   collect_updates st fm (t # ts) tv us =
     Inl (case map_of dicom_attribute_map t of None \<Rightarrow> KeyError | Some m \<Rightarrow> AttributeError)"
  by (simp add: read_tag_def ebind_def split: option.splits prod.splits)

lemma series_to_FHIR_frame: "series st' = series st \<Longrightarrow> series_to_FHIR st' k = series_to_FHIR st k"
  by (simp add: series_to_FHIR_def)

lemma series_list_to_FHIR_frame:
  "series st' = series st \<Longrightarrow> series_list_to_FHIR st' ks = series_list_to_FHIR st ks"
  by (induction ks) (simp_all add: series_to_FHIR_frame [of st' st])

lemma transform_fhir_result:
  assumes "transform_fhir st = Inr st'"
  shows "\<exists>kvs. imagingstudy_fhir st = JObj kvs
      \<and> ((KStr ''numberOfInstances'' \<notin> fst ` set kvs \<and> st' = st)
         \<or> (KStr ''numberOfInstances'' \<in> fst ` set kvs
            \<and> (\<exists>sers num. py_iter (series_fhir st) = Inr sers \<and> count_instances sers = Inr num
                 \<and> st' = st\<lparr>imagingstudy_fhir :=
                               JObj (dict_set kvs (KStr ''numberOfInstances'') (JInt (int num)))\<rparr>)))"
  using assms
  by (cases "imagingstudy_fhir st")
     (auto simp: transform_fhir_def ebind_def split: if_splits sum.splits)

text \<open>A second run of the finalizer finds the count it wrote and writes it again.\<close>

lemma transform_fhir_idem:
  assumes "transform_fhir st = Inr st'"
  shows "transform_fhir st' = Inr st'"
proof -
  from transform_fhir_result [OF assms] obtain kvs where kvs: "imagingstudy_fhir st = JObj kvs"
    and c: "(KStr ''numberOfInstances'' \<notin> fst ` set kvs \<and> st' = st)
         \<or> (KStr ''numberOfInstances'' \<in> fst ` set kvs
            \<and> (\<exists>sers num. py_iter (series_fhir st) = Inr sers \<and> count_instances sers = Inr num
                 \<and> st' = st\<lparr>imagingstudy_fhir :=
                               JObj (dict_set kvs (KStr ''numberOfInstances'') (JInt (int num)))\<rparr>))"
    by blast
  from c show ?thesis
  proof
    assume "KStr ''numberOfInstances'' \<notin> fst ` set kvs \<and> st' = st"
    with assms show ?thesis by simp
  next
    assume "KStr ''numberOfInstances'' \<in> fst ` set kvs
            \<and> (\<exists>sers num. py_iter (series_fhir st) = Inr sers \<and> count_instances sers = Inr num
                 \<and> st' = st\<lparr>imagingstudy_fhir :=
                               JObj (dict_set kvs (KStr ''numberOfInstances'') (JInt (int num)))\<rparr>)"
    then obtain sers num where "py_iter (series_fhir st) = Inr sers" "count_instances sers = Inr num"
      "st' = st\<lparr>imagingstudy_fhir := JObj (dict_set kvs (KStr ''numberOfInstances'') (JInt (int num)))\<rparr>"
      by blast
    then show ?thesis
      by (simp add: transform_fhir_def ebind_def dict_set_keys dict_set_idem)
  qed
qed

text \<open>The mapper starts from the template, not from the resource of an earlier run.\<close>

lemma update_fhir_template_frame:
  "update_fhir_template (st\<lparr>imagingstudy_fhir := x\<rparr>) t tm = update_fhir_template st t tm"
  by (simp add: update_fhir_template_def Let_def
      collect_updates_frame [of "st\<lparr>imagingstudy_fhir := x\<rparr>" st])

lemma update_fhir_template_result:
  assumes "update_fhir_template st t tm = Inr st2"
  shows "\<exists>r. st2 = st\<lparr>imagingstudy_fhir := r\<rparr>" and "transform_fhir st2 = Inr st2"
proof -
  from assms obtain r where t: "transform_fhir (st\<lparr>imagingstudy_fhir := r\<rparr>) = Inr st2"
    by (auto simp: update_fhir_template_def Let_def ebind_def split: sum.splits)
  from transform_fhir_result [OF t] show "\<exists>r. st2 = st\<lparr>imagingstudy_fhir := r\<rparr>"
    by auto
  from transform_fhir_idem [OF t] show "transform_fhir st2 = Inr st2" .
qed

lemma update_fhir_template_idem:
  assumes "update_fhir_template st t tm = Inr st2"
  shows "update_fhir_template st2 t tm = Inr st2"
proof -
  from update_fhir_template_result(1) [OF assms] obtain r
    where "st2 = st\<lparr>imagingstudy_fhir := r\<rparr>" ..
  with assms show ?thesis by (simp add: update_fhir_template_frame)
qed

lemma imagingstudy_idem:
  assumes "imagingstudy st f = Inr st3"
  shows "imagingstudy st3 f = Inr st3"
proof -
  from assms obtain st1 t tm st2 where 1: "series_to_fhir st = Inr st1" and f: "f = Inr (t, tm)"
    and 2: "update_fhir_template st1 t tm = Inr st2" and 3: "transform_fhir st2 = Inr st3"
    by (auto simp: imagingstudy_def ebind_def split: sum.splits prod.splits)
  from update_fhir_template_result [OF 2] obtain r where st2: "st2 = st1\<lparr>imagingstudy_fhir := r\<rparr>"
    and t2: "transform_fhir st2 = Inr st2" by blast
  from 3 t2 have st3: "st3 = st2" by simp
  from series_to_fhir_result [OF 1] obtain frags where st1: "st1 = st\<lparr>series_fhir := JList frags\<rparr>"
    and l: "series_list_to_FHIR st (map fst (series st)) = Inr frags" by blast
  have "series st3 = series st" by (simp add: st3 st2 st1)
  with l have "series_to_fhir st3 = Inr (st3\<lparr>series_fhir := JList frags\<rparr>)"
    by (simp add: series_to_fhir_def ebind_def series_list_to_FHIR_frame [of st3 st])
  moreover have "st3\<lparr>series_fhir := JList frags\<rparr> = st3" by (simp add: st3 st2 st1)
  ultimately have a: "series_to_fhir st3 = Inr st3" by simp
  from update_fhir_template_idem [OF 2] have b: "update_fhir_template st3 t tm = Inr st3"
    by (simp add: st3)
  from a b t2 f show ?thesis
    by (simp add: imagingstudy_def ebind_def st3)
qed


subsection \<open>The mapper keeps the fields of the template\<close>

lemma store_at_obj:
  assumes "ks \<noteq> []"
  shows "\<exists>kvs'. store_at (JObj kvs) ks c = JObj kvs' \<and> fst ` set kvs' = fst ` set kvs"
proof -
  from assms obtain k ks' where ks: "ks = k # ks'" by (cases ks) auto
  show ?thesis
  proof (cases "map_of kvs k")
    case None
    with ks have "store_at (JObj kvs) ks c = JObj kvs" by simp
    then show ?thesis by blast
  next
    case (Some child)
    with ks have "store_at (JObj kvs) ks c = JObj (dict_set kvs k (store_at child ks' c))"
      by simp
    moreover from Some have "k \<in> fst ` set kvs" by (auto dest: map_of_SomeD intro: rev_image_eqI)
    then have "fst ` set (dict_set kvs k (store_at child ks' c)) = fst ` set kvs"
      unfolding dict_set_keys by blast
    ultimately show ?thesis by blast
  qed
qed

text \<open>A write adds a field to the resource only when its location is that one field.\<close>

lemma set_nested_item_obj:
  assumes "set_nested_item (JObj kvs) loc v = Inr d'"
  shows "\<exists>kvs'. d' = JObj kvs' \<and> fst ` set kvs \<subseteq> fst ` set kvs'
           \<and> fst ` set kvs' \<subseteq> fst ` set kvs \<union> {k. loc = [k]}"
proof (cases "butlast loc = []")
  case True
  with assms have n: "loc \<noteq> []" and d: "d' = JObj (dict_set kvs (last loc) v)"
    by (auto simp: set_nested_item_def split: if_splits)
  from n True have "loc = [last loc]" by (cases loc) (auto split: if_splits)
  then have "fst ` set (dict_set kvs (last loc) v) \<subseteq> fst ` set kvs \<union> {k. loc = [k]}"
    unfolding dict_set_keys by auto
  moreover have "fst ` set kvs \<subseteq> fst ` set (dict_set kvs (last loc) v)"
    unfolding dict_set_keys by blast
  ultimately show ?thesis using d by blast
next
  case False
  from assms obtain c' where "d' = store_at (JObj kvs) (butlast loc) c'"
    by (cases "reduce_getitem (butlast loc) (JObj kvs)")
       (auto simp: set_nested_item_def split: sum.splits if_splits)
  with store_at_obj [OF False, of kvs c'] show ?thesis by auto
qed

lemma apply_updates_step_failed:
  "set_nested_item d loc v = Inl e \<Longrightarrow> apply_updates d ((loc, v) # us) = Inr r \<Longrightarrow>
   apply_updates d us = Inr r"
  by (cases "e = KeyError \<or> e = IndexError") simp_all

lemma apply_updates_step_done:
  "set_nested_item d loc v = Inr d' \<Longrightarrow> apply_updates d ((loc, v) # us) = apply_updates d' us"
  by simp

lemma subset_chain: "A \<subseteq> K \<union> L \<Longrightarrow> B \<subseteq> A \<union> U \<Longrightarrow> L \<union> U \<subseteq> T \<Longrightarrow> B \<subseteq> K \<union> T"
  by blast

lemma apply_updates_obj:
  "apply_updates (JObj kvs) us = Inr r \<Longrightarrow>
   \<exists>kvs'. r = JObj kvs' \<and> fst ` set kvs \<subseteq> fst ` set kvs'
      \<and> fst ` set kvs' \<subseteq> fst ` set kvs \<union> {k. [k] \<in> fst ` set us}"
proof (induction us arbitrary: kvs)
  case Nil
  then have "r = JObj kvs" by simp
  then show ?case by blast
next
  case (Cons u us)
  obtain loc v where u: "u = (loc, v)" by (cases u)
  show ?case
  proof (cases "set_nested_item (JObj kvs) loc v")
    case (Inl e)
    from Cons.prems have "apply_updates (JObj kvs) ((loc, v) # us) = Inr r"
      unfolding u .
    from apply_updates_step_failed [OF Inl this] have "apply_updates (JObj kvs) us = Inr r" .
    from Cons.IH [OF this] obtain kvs2 where "r = JObj kvs2" "fst ` set kvs \<subseteq> fst ` set kvs2"
      "fst ` set kvs2 \<subseteq> fst ` set kvs \<union> {k. [k] \<in> fst ` set us}"
      by blast
    then have "r = JObj kvs2 \<and> fst ` set kvs \<subseteq> fst ` set kvs2
      \<and> fst ` set kvs2 \<subseteq> fst ` set kvs \<union> {k. [k] \<in> fst ` set (u # us)}"
      by auto
    then show ?thesis by blast
  next
    case (Inr d')
    from set_nested_item_obj [OF Inr] obtain kvs1 where d': "d' = JObj kvs1"
      and sub: "fst ` set kvs \<subseteq> fst ` set kvs1"
      and sup: "fst ` set kvs1 \<subseteq> fst ` set kvs \<union> {k. loc = [k]}" by blast
    from Cons.prems have "apply_updates (JObj kvs) ((loc, v) # us) = Inr r"
      unfolding u .
    then have "apply_updates (JObj kvs1) us = Inr r"
      unfolding apply_updates_step_done [OF Inr] d' .
    from Cons.IH [OF this] obtain kvs2 where r: "r = JObj kvs2"
      and sub2: "fst ` set kvs1 \<subseteq> fst ` set kvs2"
      and sup2: "fst ` set kvs2 \<subseteq> fst ` set kvs1 \<union> {k. [k] \<in> fst ` set us}"
      by blast
    have "{k. loc = [k]} \<union> {k. [k] \<in> fst ` set us} \<subseteq> {k. [k] \<in> fst ` set (u # us)}"
      unfolding u by auto
    with sup sup2 have "fst ` set kvs2 \<subseteq> fst ` set kvs \<union> {k. [k] \<in> fst ` set (u # us)}"
      by (rule subset_chain)
    with r sub sub2 have "r = JObj kvs2 \<and> fst ` set kvs \<subseteq> fst ` set kvs2
      \<and> fst ` set kvs2 \<subseteq> fst ` set kvs \<union> {k. [k] \<in> fst ` set (u # us)}"
      by blast
    then show ?thesis by blast
  qed
qed

text \<open>The locations the first loop collects are locations of the template map.\<close>

lemma fhir_map_of_range:
  "fhir_map_of es m k = Some loc \<Longrightarrow> loc \<in> snd ` set es \<or> m k = Some loc"
proof (induction es arbitrary: m)
  case Nil
  then show ?case by simp
next
  case (Cons e es)
  obtain k' loc' where e: "e = (k', loc')" by (cases e)
  from Cons.prems have "fhir_map_of es (m(k' \<mapsto> loc')) k = Some loc" unfolding e by simp
  from Cons.IH [OF this] show ?case unfolding e by (auto split: if_splits)
qed

lemma collect_updates_locs:
  "collect_updates st fm tags tv ups = Inr ups' \<Longrightarrow>
   fst ` set ups' \<subseteq> fst ` set ups \<union> ran fm"
proof (induction tags arbitrary: tv ups)
  case Nil
  then show ?case by auto
next
  case (Cons tag tags)
  from Cons.prems obtain tmp_map tv' loc val where
    "fm tag = Some loc"
    "collect_updates st fm tags tv' (ups @ [(loc, val)]) = Inr ups'"
    by (auto simp: ebind_def split: option.splits sum.splits)
  with Cons.IH [of tv' "ups @ [(loc, val)]"] show ?case
    by (auto simp: ran_def)
qed

text \<open>The finalizer on fragments that come from the series mapping.\<close>

lemma transform_fhir_count:
  assumes "series_to_fhir st0 = Inr st1" and "distinct (map fst (series st0))"
  shows "transform_fhir (st1\<lparr>imagingstudy_fhir := JObj kvs\<rparr>)
         = Inr (st1\<lparr>imagingstudy_fhir :=
                    JObj (if KStr ''numberOfInstances'' \<in> fst ` set kvs
                          then dict_set kvs (KStr ''numberOfInstances'')
                                 (JInt (int (sum_list (map (\<lambda>p. length (snd p)) (series st0)))))
                          else kvs)\<rparr>)"
proof -
  from count_instances_series [OF assms] obtain frags where "series_fhir st1 = JList frags"
    "count_instances frags = Inr (sum_list (map (\<lambda>p. length (snd p)) (series st0)))" by blast
  then show ?thesis
    by (simp add: transform_fhir_def ebind_def)
qed

lemma imagingstudy_count:
  assumes "imagingstudy st0 (Inr (JObj tkvs, tm)) = Inr st'"
    and "distinct (map fst (series st0))"
    and "KStr ''numberOfInstances'' \<in> fst ` set tkvs"
  shows "getitem (imagingstudy_fhir st') (KStr ''numberOfInstances'')
         = Inr (JInt (int (sum_list (map (\<lambda>p. length (snd p)) (series st0)))))"
proof -
  from assms(1) obtain st1 st2 where 1: "series_to_fhir st0 = Inr st1"
    and 2: "update_fhir_template st1 (JObj tkvs) tm = Inr st2" and 3: "transform_fhir st2 = Inr st'"
    by (auto simp: imagingstudy_def ebind_def split: sum.splits)
  from update_fhir_template_result(2) [OF 2] 3 have st': "st' = st2" by simp
  from 2 obtain ups r r' where a: "apply_updates (JObj tkvs) ups = Inr r"
    and s: "setitem r (KStr ''series'') (series_fhir st1) = Inr r'"
    and t: "transform_fhir (st1\<lparr>imagingstudy_fhir := r'\<rparr>) = Inr st2"
    by (auto simp: update_fhir_template_def Let_def ebind_def split: sum.splits)
  from apply_updates_obj [OF a] obtain kvs1 where r: "r = JObj kvs1"
    and sub: "fst ` set tkvs \<subseteq> fst ` set kvs1" by blast
  let ?kvs = "dict_set kvs1 (KStr ''series'') (series_fhir st1)"
  from s r have r': "r' = JObj ?kvs" by simp
  from assms(3) sub have k: "KStr ''numberOfInstances'' \<in> fst ` set ?kvs"
    by (auto simp: dict_set_keys)
  from t [unfolded r' transform_fhir_count [OF 1 assms(2)]] k
  have "st2 = st1\<lparr>imagingstudy_fhir := JObj (dict_set ?kvs (KStr ''numberOfInstances'')
                 (JInt (int (sum_list (map (\<lambda>p. length (snd p)) (series st0))))))\<rparr>"
    by simp
  with st' show ?thesis by (simp add: map_of_dict_set_same)
qed

text \<open>
  A template without the count field, and no location of the map that is that field: the
  resource has no such field, before the finalizer and after it.
\<close>

lemma imagingstudy_no_count:
  assumes "imagingstudy st0 (Inr (JObj tkvs, tm)) = Inr st'"
    and "KStr ''numberOfInstances'' \<notin> fst ` set tkvs"
    and "[KStr ''numberOfInstances''] \<notin> snd ` set (template_entries tm)"
  shows "getitem (imagingstudy_fhir st') (KStr ''numberOfInstances'') = Inl KeyError"
proof -
  from assms(1) obtain st1 st2 where 1: "series_to_fhir st0 = Inr st1"
    and 2: "update_fhir_template st1 (JObj tkvs) tm = Inr st2" and 3: "transform_fhir st2 = Inr st'"
    by (auto simp: imagingstudy_def ebind_def split: sum.splits)
  from update_fhir_template_result(2) [OF 2] 3 have st': "st' = st2" by simp
  from 2 obtain ups r r' where
    c: "collect_updates st1 (fhir_map_of (template_entries tm) Map.empty) (tags_to_fhir tm) None []
          = Inr ups"
    and a: "apply_updates (JObj tkvs) ups = Inr r"
    and s: "setitem r (KStr ''series'') (series_fhir st1) = Inr r'"
    and t: "transform_fhir (st1\<lparr>imagingstudy_fhir := r'\<rparr>) = Inr st2"
    by (auto simp: update_fhir_template_def Let_def ebind_def split: sum.splits)
  from collect_updates_locs [OF c]
  have "fst ` set ups \<subseteq> ran (fhir_map_of (template_entries tm) Map.empty)" by simp
  also have "\<dots> \<subseteq> snd ` set (template_entries tm)"
    by (auto simp: ran_def dest: fhir_map_of_range)
  finally have l: "[KStr ''numberOfInstances''] \<notin> fst ` set ups" using assms(3) by blast
  from apply_updates_obj [OF a] obtain kvs1 where r: "r = JObj kvs1"
    and sup: "fst ` set kvs1 \<subseteq> fst ` set tkvs \<union> {k. [k] \<in> fst ` set ups}" by blast
  from sup l assms(2) have n1: "KStr ''numberOfInstances'' \<notin> fst ` set kvs1" by blast
  let ?kvs = "dict_set kvs1 (KStr ''series'') (series_fhir st1)"
  from s r have r': "r' = JObj ?kvs" by simp
  from n1 have k: "KStr ''numberOfInstances'' \<notin> fst ` set ?kvs"
    by (simp add: dict_set_keys)
  from t k have "st2 = st1\<lparr>imagingstudy_fhir := JObj ?kvs\<rparr>"
    unfolding r' by (simp add: transform_fhir_def)
  moreover from k have "map_of ?kvs (KStr ''numberOfInstances'') = None"
    by (simp only: map_of_eq_None_iff not_False_eq_True)
  ultimately show ?thesis using st' by simp
qed

section \<open>The example data, read and loaded\<close>



lemma ex_study_loaded:
  "Study_init (ex_world []) (JStr ''b'') (JList (map JStr [''k1'', ''k2'', ''k4'', ''k6'', ''k7'']))
   = (Inr ex_study, [])"
  by code_simp

section \<open>The claims\<close>

text \<open>
  C1 (as amended).  The claim says that a key whose instance cannot be read is recorded
  as rejected and the loop goes on.  \<^verbatim>\<open>Study.load\<close> has no handler around
  \<^verbatim>\<open>Instance(self.bucket, key)\<close>: when the keys before \<open>k\<close> were loaded (leaving the
  messages \<open>q\<close>) and reading \<open>k\<close> raises \<open>e\<close>, building the study raises \<open>e\<close>; nothing
  is recorded for \<open>k\<close>, and the keys after it play no part.
\<close>

theorem failed_read_aborts_batch:
  assumes "Study_init w b (JList ks) = (Inr st, q)"
    and "read_instance w b k = Inl e"
  shows "Study_init w b (JList (ks @ k # rest)) = (Inl e, q)"
proof -
  from assms(1) have l: "load_keys w (new_study b (JList ks)) [] ks = (Inr st, q)"
    by (simp add: Study_init_def load_def new_study_def)
  have "new_study b (JList (ks @ k # rest))
      = (new_study b (JList ks))\<lparr>instance_keys := JList (ks @ k # rest)\<rparr>"
    by (rule new_study_keys)
  then have l': "load_keys w (new_study b (JList (ks @ k # rest))) [] ks
      = (Inr (st\<lparr>instance_keys := JList (ks @ k # rest)\<rparr>), q)"
    using l by (simp add: load_keys_keys_update)
  from l have "bucket st = b"
    by (auto dest: load_keys_bucket simp: new_study_def)
  with assms(2) have "load_key w (st\<lparr>instance_keys := JList (ks @ k # rest)\<rparr>) q k = (Inl e, q)"
    by (simp add: load_key_def)
  with l' show ?thesis
    by (simp add: Study_init_def load_def load_keys_append new_study_def)
qed

text \<open>
  The theorem at work: \<open>k1\<close> is loaded, \<open>k3\<close> is of another study and goes to the queue,
  \<open>missing\<close> cannot be read, \<open>k2\<close> is never looked at.
\<close>

theorem failed_read_aborts_batch_witness:
  "Study_init (ex_world []) (JStr ''b'')
     (JList ([JStr ''k1'', JStr ''k3''] @ JStr ''missing'' # [JStr ''k2'']))
   = (Inl ClientError,
      [JObj [(KStr ''bucket'', JStr ''b''), (KStr ''instances'', JList [JStr ''k'', JStr ''3''])]])"
proof -
  have r: "read_instance (ex_world []) (JStr ''b'') (JStr ''missing'') = Inl ClientError"
    by code_simp
  have ok: "\<not> isl (fst (Study_init (ex_world []) (JStr ''b'') (JList [JStr ''k1'', JStr ''k3''])))"
    by code_simp
  have q: "snd (Study_init (ex_world []) (JStr ''b'') (JList [JStr ''k1'', JStr ''k3'']))
      = [JObj [(KStr ''bucket'', JStr ''b''), (KStr ''instances'', JList [JStr ''k'', JStr ''3''])]]"
    by code_simp
  from ok obtain st
    where "fst (Study_init (ex_world []) (JStr ''b'') (JList [JStr ''k1'', JStr ''k3''])) = Inr st"
    by (cases "fst (Study_init (ex_world []) (JStr ''b'') (JList [JStr ''k1'', JStr ''k3'']))") auto
  with q have "Study_init (ex_world []) (JStr ''b'') (JList [JStr ''k1'', JStr ''k3''])
      = (Inr st, [JObj [(KStr ''bucket'', JStr ''b''), (KStr ''instances'', JList [JStr ''k'', JStr ''3''])]])"
    by (simp add: prod_eq_iff)
  from failed_read_aborts_batch [OF this r] show ?thesis .
qed

text \<open>
  C1 as stated fails: the first key cannot be read, the second could, and the result is
  the exception of the first read, not a study with the identity of the second.
\<close>

theorem read_failure_counterexample:
  "Study_init (ex_world []) (JStr ''b'') (JList [JStr ''missing'', JStr ''k1''])
   = (Inl ClientError, [])"
  by code_simp




text \<open>
  C3.  The instance of \<open>k1\<close> has no element (0018,0015); the template's \<open>note\<close> is where
  that tag is mapped to.  With \<open>tags_to_fhir = [(0010,0020), (0018,0015)]\<close> the document
  that is posted has the patient reference under \<open>note\<close>: after the \<^verbatim>\<open>except KeyError\<close>
  the loop still appends \<^verbatim>\<open>(template_loc, tag_value)\<close>, and \<^verbatim>\<open>tag_value\<close> is the value
  of the entry before.  With the absent tag as the first entry \<^verbatim>\<open>tag_value\<close> is unbound
  and the mapping ends with \<^verbatim>\<open>UnboundLocalError\<close>.
\<close>

theorem stale_value_for_missing_tag:
  "tag_value (ex_dataset ''S1'' ''ser1'' ''i1'' 1) ''0018'' ''0015'' = Inl KeyError
   \<and> getitem ex_template (KStr ''note'') = Inr (JStr ''body part not given'')
   \<and> map (\<lambda>p. getitem (snd p) (KStr ''note''))
        (posted (snd (sqs_lambda_handler (ex_world [''(0010,0020)'', ''(0018,0015)''])
                        [Inr (ex_body [''k1''])])))
      = [Inr (JStr ''Patient/P1'')]
   \<and> sqs_lambda_handler (ex_world [''(0018,0015)'']) [Inr (ex_body [''k1''])]
      = (Inl UnboundLocalError, no_effects)"
  by code_simp

text \<open>
  C4 (as amended).  There is no \<^verbatim>\<open>EmptyStudyError\<close> in the lambda.  A batch in which no
  instance is read is a batch whose first read raises, or one with no keys.  When the
  first read raises \<open>e\<close>, the handler ends with \<open>e\<close>.  When there are no keys and the
  read of the template raises, the handler ends with that exception; when the template
  is read and \<^verbatim>\<open>tags_to_fhir\<close> has a first entry, the mapper raises at that entry:
  \<^verbatim>\<open>KeyError\<close> for a tag that \<^verbatim>\<open>dicom_attribute_map\<close> does not have, else
  \<^verbatim>\<open>AttributeError\<close> because \<^verbatim>\<open>self.instance\<close> is \<^verbatim>\<open>None\<close>.  In each case nothing is
  sent and nothing is posted, whatever records follow.
\<close>

theorem no_instance_no_submission:
  "(bucket_and_instances jbody1 = Inr (Some (b1, insts1)) \<and> py_iter insts1 = Inr (k # rest)
      \<and> read_instance w1 b1 k = Inl e1
      \<longrightarrow> sqs_lambda_handler w1 (Inr jbody1 # rs1) = (Inl e1, no_effects))
   \<and> (bucket_and_instances jbody2 = Inr (Some (b2, insts2)) \<and> py_iter insts2 = Inr []
      \<and> s3_template w2 = Inl e2
      \<longrightarrow> sqs_lambda_handler w2 (Inr jbody2 # rs2) = (Inl e2, no_effects))
   \<and> (bucket_and_instances jbody3 = Inr (Some (b3, insts3)) \<and> py_iter insts3 = Inr []
      \<and> s3_template w3 = Inr (t, tm) \<and> tags_to_fhir tm = tg # tgs
      \<longrightarrow> sqs_lambda_handler w3 (Inr jbody3 # rs3)
          = (Inl (case map_of dicom_attribute_map tg of
                    None \<Rightarrow> KeyError | Some m \<Rightarrow> AttributeError),
             no_effects))"
proof (intro conjI impI)
  assume a: "bucket_and_instances jbody1 = Inr (Some (b1, insts1)) \<and> py_iter insts1 = Inr (k # rest)
      \<and> read_instance w1 b1 k = Inl e1"
  then have "Study_init w1 b1 insts1 = (Inl e1, [])"
    by (simp add: Study_init_def load_def new_study_def load_key_def)
  with a show "sqs_lambda_handler w1 (Inr jbody1 # rs1) = (Inl e1, no_effects)"
    by (simp add: sqs_lambda_handler_def handle_payload_def ebind_def no_effects_def)
next
  assume a: "bucket_and_instances jbody2 = Inr (Some (b2, insts2)) \<and> py_iter insts2 = Inr []
      \<and> s3_template w2 = Inl e2"
  then have s: "Study_init w2 b2 insts2 = (Inr (new_study b2 insts2), [])"
    by (simp add: Study_init_def load_def new_study_def)
  have sf: "series_to_fhir (new_study b2 insts2)
      = Inr ((new_study b2 insts2)\<lparr>series_fhir := JList []\<rparr>)"
    by (simp add: series_to_fhir_def new_study_def ebind_def)
  with a have "imagingstudy (new_study b2 insts2) (s3_template w2) = Inl e2"
    by (simp add: imagingstudy_def ebind_def)
  with s a show "sqs_lambda_handler w2 (Inr jbody2 # rs2) = (Inl e2, no_effects)"
    by (simp add: sqs_lambda_handler_def handle_payload_def ebind_def no_effects_def)
next
  assume a: "bucket_and_instances jbody3 = Inr (Some (b3, insts3)) \<and> py_iter insts3 = Inr []
      \<and> s3_template w3 = Inr (t, tm) \<and> tags_to_fhir tm = tg # tgs"
  let ?e = "case map_of dicom_attribute_map tg of None \<Rightarrow> KeyError | Some m \<Rightarrow> AttributeError"
  from a have s: "Study_init w3 b3 insts3 = (Inr (new_study b3 insts3), [])"
    by (simp add: Study_init_def load_def new_study_def)
  have sf: "series_to_fhir (new_study b3 insts3)
      = Inr ((new_study b3 insts3)\<lparr>series_fhir := JList []\<rparr>)"
    by (simp add: series_to_fhir_def new_study_def ebind_def)
  from a have tg: "tags_to_fhir tm = tg # tgs" by simp
  have "instance_rep ((new_study b3 insts3)\<lparr>series_fhir := JList []\<rparr>) = None"
    by (simp add: new_study_def)
  then have cu: "\<And>fm. collect_updates ((new_study b3 insts3)\<lparr>series_fhir := JList []\<rparr>) fm
                        (tg # tgs) None [] = Inl ?e"
    by (rule collect_updates_no_instance)
  have "update_fhir_template ((new_study b3 insts3)\<lparr>series_fhir := JList []\<rparr>) t tm = Inl ?e"
    unfolding update_fhir_template_def tg Let_def cu by (simp add: ebind_def)
  with sf a have "imagingstudy (new_study b3 insts3) (s3_template w3) = Inl ?e"
    by (simp add: imagingstudy_def ebind_def)
  with s a show "sqs_lambda_handler w3 (Inr jbody3 # rs3) = (Inl ?e, no_effects)"
    by (simp add: sqs_lambda_handler_def handle_payload_def ebind_def no_effects_def)
qed

text \<open>
  Three records, each followed by a record that would load: a first key that is not in
  the bucket; no keys and a template store that cannot be read; no keys and one tag to
  map.
\<close>

theorem no_instance_no_submission_witness:
  "sqs_lambda_handler (ex_world [''(0010,0020)''])
      (Inr (ex_body [''missing'', ''k1'']) # [Inr (ex_body [''k1''])])
     = (Inl ClientError, no_effects)
   \<and> sqs_lambda_handler ((ex_world [''(0010,0020)''])\<lparr>s3_template := Inl ClientError\<rparr>)
      (Inr (ex_body []) # [Inr (ex_body [''k1''])])
     = (Inl ClientError, no_effects)
   \<and> sqs_lambda_handler (ex_world [''(0010,0020)'']) (Inr (ex_body []) # [Inr (ex_body [''k1''])])
     = (Inl AttributeError, no_effects)"
proof -
  have 1: "bucket_and_instances (ex_body [''missing'', ''k1''])
      = Inr (Some (JStr ''b'', JList [JStr ''missing'', JStr ''k1'']))" by code_simp
  have 2: "py_iter (JList [JStr ''missing'', JStr ''k1'']) = Inr (JStr ''missing'' # [JStr ''k1''])"
    by simp
  have 3: "read_instance (ex_world [''(0010,0020)'']) (JStr ''b'') (JStr ''missing'') = Inl ClientError"
    by code_simp
  have 4: "bucket_and_instances (ex_body []) = Inr (Some (JStr ''b'', JList []))" by code_simp
  have 5: "py_iter (JList []) = Inr []" by simp
  have 6: "s3_template ((ex_world [''(0010,0020)''])\<lparr>s3_template := Inl ClientError\<rparr>) = Inl ClientError"
    by simp
  have 7: "s3_template (ex_world [''(0010,0020)'']) = Inr (ex_template, ex_map [''(0010,0020)''])"
    by (simp add: ex_world_def)
  have 8: "tags_to_fhir (ex_map [''(0010,0020)'']) = ''(0010,0020)'' # []" by (simp add: ex_map_def)
  have 9: "(case map_of dicom_attribute_map ''(0010,0020)'' of
              None \<Rightarrow> KeyError | Some m \<Rightarrow> AttributeError) = AttributeError"
    by code_simp
  from no_instance_no_submission [of "ex_body [''missing'', ''k1'']" "JStr ''b''"
      "JList [JStr ''missing'', JStr ''k1'']" "JStr ''missing''" "[JStr ''k1'']"
      "ex_world [''(0010,0020)'']" ClientError "[Inr (ex_body [''k1''])]"
      "ex_body []" "JStr ''b''" "JList []"
      "(ex_world [''(0010,0020)''])\<lparr>s3_template := Inl ClientError\<rparr>" ClientError
      "[Inr (ex_body [''k1''])]"
      "ex_body []" "JStr ''b''" "JList []" "ex_world [''(0010,0020)'']" ex_template
      "ex_map [''(0010,0020)'']" "''(0010,0020)''" "[]" "[Inr (ex_body [''k1''])]"]
    1 2 3 4 5 6 7 8
  show ?thesis unfolding 9 by blast
qed

text \<open>
  C4 as stated fails twice over.  With no keys and an empty \<^verbatim>\<open>tags_to_fhir\<close> nothing is
  raised and the template with an empty series list is posted; with no keys and a tag to
  map, what is raised is the \<^verbatim>\<open>AttributeError\<close> of \<^verbatim>\<open>self.instance.dcm\<close>.
\<close>

theorem empty_batch_counterexample:
  "sqs_lambda_handler (ex_world []) [Inr (ex_body [])]
     = (Inr (Some \<lparr>statusCode = 201, headers = [(''Content-Type'', ''text/plain'')],
                   body = ''POST to HealthLake returned  201,created'' @ [CHR 0x0A]\<rparr>),
        \<lparr>sent = [],
         posted = [(''https://healthlake.example/r4/ImagingStudy'',
            JObj [(KStr ''resourceType'', JStr ''ImagingStudy''),
                  (KStr ''status'', JStr ''available''),
                  (KStr ''subject'', JObj [(KStr ''reference'', JStr ''Patient/unknown'')]),
                  (KStr ''started'', JStr ''1900-01-01''),
                  (KStr ''numberOfInstances'', JInt 0),
                  (KStr ''note'', JStr ''body part not given''),
                  (KStr ''series'', JList [])])]\<rparr>)
   \<and> sqs_lambda_handler (ex_world [''(0010,0020)'']) [Inr (ex_body [])]
     = (Inl AttributeError, no_effects)"
  by code_simp

text \<open>
  C5.  A body that is a list of two records is neither a dict nor a list of length one.
  The source builds \<^verbatim>\<open>ValueError('Unrecognized payload body')\<close> without raising it; the
  next line formats \<^verbatim>\<open>bucket\<close>, which was never bound, and the handler ends with that
  \<^verbatim>\<open>UnboundLocalError\<close>.
\<close>

theorem malformed_body_unbound_local:
  "sqs_lambda_handler (ex_world [''(0010,0020)''])
     [Inr (JList [ex_body [''k1''], ex_body [''k2'']])]
   = (Inl UnboundLocalError, no_effects)"
  by code_simp

text \<open>
  C6 (as amended).  \<^verbatim>\<open>set_nested_item\<close> walks the location up to its last segment and
  then stores.  When the walk meets a missing key or an index out of range, the write is
  dropped by the \<^verbatim>\<open>except (KeyError, IndexError)\<close> of the loop and the resource stays
  as it was.  When the walk ends at a mapping, the store always succeeds: the last
  segment becomes a key of that mapping whether it was one before or not, and the value
  can be read back at the location.
\<close>

theorem set_nested_item_structure:
  "(reduce_getitem (butlast loc1) d1 = Inl e \<and> (e = KeyError \<or> e = IndexError)
      \<longrightarrow> apply_updates d1 ((loc1, v1) # us1) = apply_updates d1 us1)
   \<and> (loc \<noteq> [] \<and> reduce_getitem (butlast loc) d = Inr (JObj kvs)
      \<longrightarrow> (\<exists>d'. set_nested_item d loc v = Inr d'
             \<and> apply_updates d ((loc, v) # us) = apply_updates d' us
             \<and> reduce_getitem (butlast loc) d' = Inr (JObj (dict_set kvs (last loc) v))
             \<and> reduce_getitem loc d' = Inr v))"
proof (intro conjI impI)
  assume "reduce_getitem (butlast loc1) d1 = Inl e \<and> (e = KeyError \<or> e = IndexError)"
  then show "apply_updates d1 ((loc1, v1) # us1) = apply_updates d1 us1"
    by (auto simp: set_nested_item_def)
next
  assume a: "loc \<noteq> [] \<and> reduce_getitem (butlast loc) d = Inr (JObj kvs)"
  let ?c = "JObj (dict_set kvs (last loc) v)"
  let ?d = "store_at d (butlast loc) ?c"
  from a have s: "set_nested_item d loc v = Inr ?d"
    by (simp add: set_nested_item_def)
  from a have b: "reduce_getitem (butlast loc) ?d = Inr ?c"
    by (simp add: reduce_getitem_store_at)
  from a have "loc = butlast loc @ [last loc]" by simp
  then have "reduce_getitem loc ?d =
      (case reduce_getitem (butlast loc) ?d of Inl e \<Rightarrow> Inl e | Inr c \<Rightarrow> getitem c (last loc))"
    using reduce_getitem_snoc [of "butlast loc" "last loc" ?d] by simp
  with b have "reduce_getitem loc ?d = Inr v" by (simp add: map_of_dict_set_same)
  with s b show "\<exists>d'. set_nested_item d loc v = Inr d'
             \<and> apply_updates d ((loc, v) # us) = apply_updates d' us
             \<and> reduce_getitem (butlast loc) d' = Inr (JObj (dict_set kvs (last loc) v))
             \<and> reduce_getitem loc d' = Inr v"
    by simp
qed

text \<open>
  Both halves on the example template: \<open>identifier\<close> is not there, so a write below it is
  dropped; \<open>subject\<close> is there and has no \<open>display\<close>, which the write adds.
\<close>

theorem set_nested_item_structure_witness:
  "apply_updates ex_template [([KStr ''identifier'', KInt 0, KStr ''value''], JStr ''1.2.3'')]
     = apply_updates ex_template []
   \<and> (\<exists>d'. set_nested_item ex_template [KStr ''subject'', KStr ''display''] (JStr ''P1'') = Inr d'
         \<and> apply_updates ex_template [([KStr ''subject'', KStr ''display''], JStr ''P1'')]
             = apply_updates d' []
         \<and> reduce_getitem [KStr ''subject''] d'
             = Inr (JObj [(KStr ''reference'', JStr ''Patient/unknown''), (KStr ''display'', JStr ''P1'')])
         \<and> reduce_getitem [KStr ''subject'', KStr ''display''] d' = Inr (JStr ''P1''))"
proof -
  have h1: "reduce_getitem (butlast [KStr ''identifier'', KInt 0, KStr ''value'']) ex_template
      = Inl KeyError"
    by code_simp
  have h2: "reduce_getitem (butlast [KStr ''subject'', KStr ''display'']) ex_template
      = Inr (JObj [(KStr ''reference'', JStr ''Patient/unknown'')])"
    by code_simp
  have h3: "dict_set [(KStr ''reference'', JStr ''Patient/unknown'')]
        (last [KStr ''subject'', KStr ''display'']) (JStr ''P1'')
      = [(KStr ''reference'', JStr ''Patient/unknown''), (KStr ''display'', JStr ''P1'')]"
    by code_simp
  have h4: "butlast [KStr ''subject'', KStr ''display''] = [KStr ''subject'']" by simp
  from set_nested_item_structure [of "[KStr ''identifier'', KInt 0, KStr ''value'']" ex_template
      KeyError "JStr ''1.2.3''" "[]" "[KStr ''subject'', KStr ''display'']" ex_template
      "[(KStr ''reference'', JStr ''Patient/unknown'')]" "JStr ''P1''" "[]"] h1 h2
  show ?thesis unfolding h3 h4 by blast
qed

text \<open>
  C6 as stated fails: \<open>subject.display\<close> is no location of the template, and the write
  does not fail but adds the key.
\<close>

theorem missing_final_key_counterexample:
  "reduce_getitem [KStr ''subject'', KStr ''display''] ex_template = Inl KeyError
   \<and> apply_updates ex_template [([KStr ''subject'', KStr ''display''], JStr ''P1'')]
     = Inr (JObj [(KStr ''resourceType'', JStr ''ImagingStudy''),
           (KStr ''status'', JStr ''available''),
           (KStr ''subject'', JObj [(KStr ''reference'', JStr ''Patient/unknown''),
                                    (KStr ''display'', JStr ''P1'')]),
           (KStr ''started'', JStr ''1900-01-01''),
           (KStr ''numberOfInstances'', JInt 0),
           (KStr ''note'', JStr ''body part not given'')])"
  by code_simp



text \<open>
  C8 (as amended).  Let the series mapping of the study have distinct keys (it is a
  dict).  When the template is a mapping that has the field \<open>numberOfInstances\<close> and
  the resource is built, the field holds the sum of the lengths of the series' instance
  lists.  When the template does not have the field and no location of the template map
  is that field, the resource built has no such field.  The finalizer itself decides on
  the resource it is given, not on the template: with the fragments built from the
  series mapping, it writes the sum into a resource that has the field and returns a
  resource that does not have it as it is.
\<close>

theorem total_instance_count:
  assumes "distinct (map fst (series st0))"
  shows "(imagingstudy st0 (Inr (JObj tkvs, tm)) = Inr st'
            \<and> KStr ''numberOfInstances'' \<in> fst ` set tkvs
          \<longrightarrow> getitem (imagingstudy_fhir st') (KStr ''numberOfInstances'')
              = Inr (JInt (int (sum_list (map (\<lambda>p. length (snd p)) (series st0))))))
       \<and> (imagingstudy st0 (Inr (JObj tkvs, tm)) = Inr st'
            \<and> KStr ''numberOfInstances'' \<notin> fst ` set tkvs
            \<and> [KStr ''numberOfInstances''] \<notin> snd ` set (template_entries tm)
          \<longrightarrow> getitem (imagingstudy_fhir st') (KStr ''numberOfInstances'') = Inl KeyError)
       \<and> (series_to_fhir st0 = Inr st1
          \<longrightarrow> transform_fhir (st1\<lparr>imagingstudy_fhir := JObj kvs\<rparr>)
              = Inr (st1\<lparr>imagingstudy_fhir :=
                    JObj (if KStr ''numberOfInstances'' \<in> fst ` set kvs
                          then dict_set kvs (KStr ''numberOfInstances'')
                                 (JInt (int (sum_list (map (\<lambda>p. length (snd p)) (series st0)))))
                          else kvs)\<rparr>))"
proof (intro conjI impI)
  assume "imagingstudy st0 (Inr (JObj tkvs, tm)) = Inr st'
            \<and> KStr ''numberOfInstances'' \<in> fst ` set tkvs"
  then show "getitem (imagingstudy_fhir st') (KStr ''numberOfInstances'')
              = Inr (JInt (int (sum_list (map (\<lambda>p. length (snd p)) (series st0)))))"
    using imagingstudy_count [OF _ assms] by blast
next
  assume "imagingstudy st0 (Inr (JObj tkvs, tm)) = Inr st'
            \<and> KStr ''numberOfInstances'' \<notin> fst ` set tkvs
            \<and> [KStr ''numberOfInstances''] \<notin> snd ` set (template_entries tm)"
  then show "getitem (imagingstudy_fhir st') (KStr ''numberOfInstances'') = Inl KeyError"
    using imagingstudy_no_count by blast
next
  assume "series_to_fhir st0 = Inr st1"
  then show "transform_fhir (st1\<lparr>imagingstudy_fhir := JObj kvs\<rparr>)
              = Inr (st1\<lparr>imagingstudy_fhir :=
                    JObj (if KStr ''numberOfInstances'' \<in> fst ` set kvs
                          then dict_set kvs (KStr ''numberOfInstances'')
                                 (JInt (int (sum_list (map (\<lambda>p. length (snd p)) (series st0)))))
                          else kvs)\<rparr>)"
    using assms by (rule transform_fhir_count)
qed

text \<open>
  The example study has series of two and of three instances.  Built on the example
  template the resource has the count five; built on the template without the field it
  has no count; and the finalizer returns the template without the field as it is.
\<close>

theorem total_instance_count_witness:
  "\<exists>st' st'' st1.
     map (\<lambda>p. length (snd p)) (series ex_study) = [2, 3]
     \<and> imagingstudy ex_study (Inr (ex_template, ex_map [''(0010,0020)''])) = Inr st'
     \<and> getitem (imagingstudy_fhir st') (KStr ''numberOfInstances'') = Inr (JInt 5)
     \<and> imagingstudy ex_study (Inr (ex_template_no_count, ex_map [''(0010,0020)''])) = Inr st''
     \<and> getitem (imagingstudy_fhir st'') (KStr ''numberOfInstances'') = Inl KeyError
     \<and> series_to_fhir ex_study = Inr st1
     \<and> transform_fhir (st1\<lparr>imagingstudy_fhir := ex_template_no_count\<rparr>)
         = Inr (st1\<lparr>imagingstudy_fhir := ex_template_no_count\<rparr>)"
proof -
  let ?t = "[(KStr ''resourceType'', JStr ''ImagingStudy''),
             (KStr ''status'', JStr ''available''),
             (KStr ''subject'', JObj [(KStr ''reference'', JStr ''Patient/unknown'')]),
             (KStr ''started'', JStr ''1900-01-01''),
             (KStr ''numberOfInstances'', JInt 0),
             (KStr ''note'', JStr ''body part not given'')]"
  let ?n = "[(KStr ''resourceType'', JStr ''ImagingStudy''), (KStr ''status'', JStr ''available'')]"
  have t: "ex_template = JObj ?t" by (simp add: ex_template_def)
  have n: "ex_template_no_count = JObj ?n" by (simp add: ex_template_no_count_def)
  have "\<not> isl (imagingstudy ex_study (Inr (ex_template, ex_map [''(0010,0020)''])))" by code_simp
  then obtain st' where 1: "imagingstudy ex_study (Inr (JObj ?t, ex_map [''(0010,0020)''])) = Inr st'"
    unfolding t by (cases "imagingstudy ex_study (Inr (JObj ?t, ex_map [''(0010,0020)'']))") auto
  have "\<not> isl (imagingstudy ex_study (Inr (ex_template_no_count, ex_map [''(0010,0020)''])))"
    by code_simp
  then obtain st'' where 2: "imagingstudy ex_study (Inr (JObj ?n, ex_map [''(0010,0020)''])) = Inr st''"
    unfolding n by (cases "imagingstudy ex_study (Inr (JObj ?n, ex_map [''(0010,0020)'']))") auto
  have "\<not> isl (series_to_fhir ex_study)" by code_simp
  then obtain st1 where 3: "series_to_fhir ex_study = Inr st1"
    by (cases "series_to_fhir ex_study") auto
  have d: "distinct (map fst (series ex_study))" by (simp add: ex_study_def)
  have c: "map (\<lambda>p. length (snd p)) (series ex_study) = [2, 3]" by (simp add: ex_study_def)
  have k: "KStr ''numberOfInstances'' \<in> fst ` set ?t" by simp
  have k': "KStr ''numberOfInstances'' \<notin> fst ` set ?n" by simp
  have l: "[KStr ''numberOfInstances''] \<notin> snd ` set (template_entries (ex_map [''(0010,0020)'']))"
    by (simp add: ex_map_def ex_entries_def)
  from total_instance_count [OF d, of ?t "ex_map [''(0010,0020)'']" st'] 1 k
  have a: "getitem (imagingstudy_fhir st') (KStr ''numberOfInstances'') = Inr (JInt 5)"
    unfolding c by simp
  from total_instance_count [OF d, of ?n "ex_map [''(0010,0020)'']" st''] 2 k' l
  have b: "getitem (imagingstudy_fhir st'') (KStr ''numberOfInstances'') = Inl KeyError"
    by blast
  from total_instance_count [OF d, of _ _ _ st1 ?n] 3 k'
  have e: "transform_fhir (st1\<lparr>imagingstudy_fhir := JObj ?n\<rparr>)
      = Inr (st1\<lparr>imagingstudy_fhir := JObj ?n\<rparr>)"
    by simp
  show ?thesis
    unfolding t n
    by (rule exI [of _ st'], rule exI [of _ st''], rule exI [of _ st1]) (intro conjI c 1 a 2 b 3 e)
qed

text \<open>
  C8 as stated fails in its second half.  The template has no field \<open>numberOfInstances\<close>,
  but the map sends the patient id to a location of that name: the mapper adds the field
  with the value \<open>Patient/P1\<close>, and the finalizer, finding the field in the resource,
  replaces that value by the count.
\<close>

theorem count_field_from_mapping_counterexample:
  "getitem ex_template_no_count (KStr ''numberOfInstances'') = Inl KeyError
   \<and> apply_updates ex_template_no_count [([KStr ''numberOfInstances''], JStr ''Patient/P1'')]
     = Inr (JObj [(KStr ''resourceType'', JStr ''ImagingStudy''),
                  (KStr ''status'', JStr ''available''),
                  (KStr ''numberOfInstances'', JStr ''Patient/P1'')])
   \<and> map_sum id (\<lambda>st. getitem (imagingstudy_fhir st) (KStr ''numberOfInstances''))
       (imagingstudy ex_study (Inr (ex_template_no_count, ex_map_count)))
     = Inr (Inr (JInt 5))"
  by code_simp

text \<open>
  C9.  Running \<^verbatim>\<open>imagingstudy\<close> on a study and then again on the study it left, with the
  same template and map, gives what the first run gave: the same resource, or the same
  exception.  The same holds for \<^verbatim>\<open>_update_fhir_template\<close> alone, which ends with the
  finalizer.
\<close>

theorem mapping_idempotent:
  "ebind (imagingstudy st f) (\<lambda>st'. imagingstudy st' f) = imagingstudy st f
   \<and> ebind (update_fhir_template st t tm) (\<lambda>st'. update_fhir_template st' t tm)
       = update_fhir_template st t tm"
proof
  show "ebind (imagingstudy st f) (\<lambda>st'. imagingstudy st' f) = imagingstudy st f"
    by (cases "imagingstudy st f") (simp_all add: ebind_def imagingstudy_idem)
  show "ebind (update_fhir_template st t tm) (\<lambda>st'. update_fhir_template st' t tm)
       = update_fhir_template st t tm"
    by (cases "update_fhir_template st t tm") (simp_all add: ebind_def update_fhir_template_idem)
qed

theorem mapping_idempotent_witness:
  "ebind (imagingstudy ex_study (Inr (ex_template, ex_map [''(0010,0020)'', ''(0008,0020)''])))
     (\<lambda>st'. imagingstudy st' (Inr (ex_template, ex_map [''(0010,0020)'', ''(0008,0020)''])))
     = imagingstudy ex_study (Inr (ex_template, ex_map [''(0010,0020)'', ''(0008,0020)'']))
   \<and> ebind (update_fhir_template ex_study ex_template (ex_map [''(0010,0020)'', ''(0008,0020)'']))
       (\<lambda>st'. update_fhir_template st' ex_template (ex_map [''(0010,0020)'', ''(0008,0020)'']))
     = update_fhir_template ex_study ex_template (ex_map [''(0010,0020)'', ''(0008,0020)''])"
  by (rule mapping_idempotent)

text \<open>
  C10. Whatever follows the first record, the handler does what it does for the first
  record alone: the body of the loop ends with an exception or with \<^verbatim>\<open>return\<close>, never
  by reaching the next iteration, and the handler's outcome and effects are those of the
  first record.  When the study of the first record is assembled (leaving the reject
  messages \<open>q\<close>), mapped and submitted with answer \<open>(code, txt)\<close>, the handler returns
  the response made of that answer; what was sent is \<open>q\<close>, and what was posted is that
  one resource, to the endpoint of its \<open>resourceType\<close>.
\<close>

theorem handler_first_record_only:
  "sqs_lambda_handler w (r # rs) = sqs_lambda_handler w [r]
   \<and> (\<exists>res eff. handle_payload w r = (map_sum id Return res, eff)
         \<and> sqs_lambda_handler w (r # rs) = (map_sum id Some res, eff))
   \<and> (bucket_and_instances jbody = Inr (Some (b, insts))
        \<and> Study_init w b insts = (Inr st, q)
        \<and> imagingstudy st (s3_template w) = Inr st'
        \<and> getitem (imagingstudy_fhir st') (KStr ''resourceType'') = Inr (JStr rt)
        \<and> healthlake w (endpoint_base w @ rt) (imagingstudy_fhir st') = Inr (code, txt)
      \<longrightarrow> sqs_lambda_handler w (Inr jbody # rs')
          = (Inr (Some \<lparr>statusCode = code, headers = [(''Content-Type'', ''text/plain'')],
                         body = ''POST to HealthLake returned  '' @ show_int code
                                  @ '','' @ txt @ [CHR 0x0A]\<rparr>),
             \<lparr>sent = q, posted = [(endpoint_base w @ rt, imagingstudy_fhir st')]\<rparr>))"
proof (intro conjI impI)
  obtain res eff where h: "handle_payload w r = (res, eff)" by (cases "handle_payload w r")
  have "sqs_lambda_handler w (r # rs) = sqs_lambda_handler w [r]
      \<and> (\<exists>res eff. handle_payload w r = (map_sum id Return res, eff)
         \<and> sqs_lambda_handler w (r # rs) = (map_sum id Some res, eff))"
  proof (cases res)
    case (Inl e)
    with h have "handle_payload w r = (map_sum id Return (Inl e), eff)" by simp
    moreover from h Inl have "sqs_lambda_handler w (r # rs) = (map_sum id Some (Inl e), eff)"
      by (simp add: sqs_lambda_handler_def)
    moreover from h Inl have "sqs_lambda_handler w (r # rs) = sqs_lambda_handler w [r]"
      by (simp add: sqs_lambda_handler_def)
    ultimately show ?thesis by blast
  next
    case (Inr f)
    with h handle_payload_returns [of w r eff] obtain resp where f: "f = Return resp"
      by (cases f) auto
    with h Inr have "handle_payload w r = (map_sum id Return (Inr resp), eff)" by simp
    moreover from h Inr f have "sqs_lambda_handler w (r # rs) = (map_sum id Some (Inr resp), eff)"
      by (simp add: sqs_lambda_handler_def)
    moreover from h Inr f have "sqs_lambda_handler w (r # rs) = sqs_lambda_handler w [r]"
      by (simp add: sqs_lambda_handler_def)
    ultimately show ?thesis by blast
  qed
  then show "sqs_lambda_handler w (r # rs) = sqs_lambda_handler w [r]"
    and "\<exists>res eff. handle_payload w r = (map_sum id Return res, eff)
         \<and> sqs_lambda_handler w (r # rs) = (map_sum id Some res, eff)"
    by blast+
next
  assume a: "bucket_and_instances jbody = Inr (Some (b, insts))
        \<and> Study_init w b insts = (Inr st, q)
        \<and> imagingstudy st (s3_template w) = Inr st'
        \<and> getitem (imagingstudy_fhir st') (KStr ''resourceType'') = Inr (JStr rt)
        \<and> healthlake w (endpoint_base w @ rt) (imagingstudy_fhir st') = Inr (code, txt)"
  then have p: "post_to_healthlake w st'
      = (Inr (code, txt), [(endpoint_base w @ rt, imagingstudy_fhir st')])"
    by (simp add: post_to_healthlake_def Let_def)
  from a have "handle_payload w (Inr jbody)
      = (Inr (Return \<lparr>statusCode = code, headers = [(''Content-Type'', ''text/plain'')],
                         body = ''POST to HealthLake returned  '' @ show_int code
                                  @ '','' @ txt @ [CHR 0x0A]\<rparr>),
         \<lparr>sent = q, posted = [(endpoint_base w @ rt, imagingstudy_fhir st')]\<rparr>)"
    unfolding handle_payload_def by (simp add: ebind_def p)
  then show "sqs_lambda_handler w (Inr jbody # rs')
          = (Inr (Some \<lparr>statusCode = code, headers = [(''Content-Type'', ''text/plain'')],
                         body = ''POST to HealthLake returned  '' @ show_int code
                                  @ '','' @ txt @ [CHR 0x0A]\<rparr>),
             \<lparr>sent = q, posted = [(endpoint_base w @ rt, imagingstudy_fhir st')]\<rparr>)"
    by (simp add: sqs_lambda_handler_def)
qed

text \<open>
  Three records: the first with the keys \<open>k1\<close> and \<open>k3\<close>, the second with \<open>k2\<close>, the
  third with a body that is not JSON.  The handler answers for the first record: one
  reject message (for \<open>k3\<close>) and one resource posted, with the series of \<open>k1\<close>.
\<close>

theorem handler_first_record_only_witness:
  "sqs_lambda_handler (ex_world [''(0010,0020)''])
     [Inr (ex_body [''k1'', ''k3'']), Inr (ex_body [''k2'']), Inl ValueError]
     = sqs_lambda_handler (ex_world [''(0010,0020)'']) [Inr (ex_body [''k1'', ''k3''])]
   \<and> (\<exists>res eff. handle_payload (ex_world [''(0010,0020)'']) (Inr (ex_body [''k1'', ''k3'']))
           = (map_sum id Return res, eff)
         \<and> sqs_lambda_handler (ex_world [''(0010,0020)''])
             [Inr (ex_body [''k1'', ''k3'']), Inr (ex_body [''k2'']), Inl ValueError]
           = (map_sum id Some res, eff))
   \<and> (\<exists>st st'.
         Study_init (ex_world [''(0010,0020)'']) (JStr ''b'') (JList (map JStr [''k1'', ''k3'']))
           = (Inr st, [JObj [(KStr ''bucket'', JStr ''b''),
                             (KStr ''instances'', JList [JStr ''k'', JStr ''3''])]])
         \<and> imagingstudy st (s3_template (ex_world [''(0010,0020)''])) = Inr st'
         \<and> map fragment_uid (case getitem (imagingstudy_fhir st') (KStr ''series'') of
                                 Inr (JList frags) \<Rightarrow> frags | other \<Rightarrow> [])
             = [Inr (JStr ''ser1'')]
         \<and> sqs_lambda_handler (ex_world [''(0010,0020)''])
             [Inr (ex_body [''k1'', ''k3'']), Inr (ex_body [''k2'']), Inl ValueError]
           = (Inr (Some \<lparr>statusCode = 201, headers = [(''Content-Type'', ''text/plain'')],
                          body = ''POST to HealthLake returned  201,created'' @ [CHR 0x0A]\<rparr>),
              \<lparr>sent = [JObj [(KStr ''bucket'', JStr ''b''),
                             (KStr ''instances'', JList [JStr ''k'', JStr ''3''])]],
               posted = [(''https://healthlake.example/r4/ImagingStudy'', imagingstudy_fhir st')]\<rparr>))"
proof -
  let ?w = "ex_world [''(0010,0020)'']"
  let ?ks = "JList (map JStr [''k1'', ''k3''])"
  let ?m = "JObj [(KStr ''bucket'', JStr ''b''), (KStr ''instances'', JList [JStr ''k'', JStr ''3''])]"
  have "\<not> isl (ebind (fst (Study_init ?w (JStr ''b'') ?ks)) (\<lambda>st. imagingstudy st (s3_template ?w)))"
    by code_simp
  then obtain st st' where st: "fst (Study_init ?w (JStr ''b'') ?ks) = Inr st"
    and st': "imagingstudy st (s3_template ?w) = Inr st'"
    by (cases "fst (Study_init ?w (JStr ''b'') ?ks)";
        cases "imagingstudy (projr (fst (Study_init ?w (JStr ''b'') ?ks))) (s3_template ?w)")
       (auto simp: ebind_def)
  have "snd (Study_init ?w (JStr ''b'') ?ks) = [?m]" by code_simp
  with st have a: "Study_init ?w (JStr ''b'') ?ks = (Inr st, [?m])"
    by (simp add: prod_eq_iff)
  have "ebind (ebind (fst (Study_init ?w (JStr ''b'') ?ks)) (\<lambda>st. imagingstudy st (s3_template ?w)))
          (\<lambda>st'. getitem (imagingstudy_fhir st') (KStr ''resourceType''))
        = Inr (JStr ''ImagingStudy'')"
    by code_simp
  with st st' have rt: "getitem (imagingstudy_fhir st') (KStr ''resourceType'') = Inr (JStr ''ImagingStudy'')"
    by (simp add: ebind_def)
  have "ebind (ebind (fst (Study_init ?w (JStr ''b'') ?ks)) (\<lambda>st. imagingstudy st (s3_template ?w)))
          (\<lambda>st'. Inr (map fragment_uid (case getitem (imagingstudy_fhir st') (KStr ''series'') of
                                 Inr (JList frags) \<Rightarrow> frags | other \<Rightarrow> [])))
        = Inr [Inr (JStr ''ser1'')]"
    by code_simp
  with st st' have fr: "map fragment_uid (case getitem (imagingstudy_fhir st') (KStr ''series'') of
                                 Inr (JList frags) \<Rightarrow> frags | other \<Rightarrow> [])
             = [Inr (JStr ''ser1'')]"
    by (simp add: ebind_def)
  have bi: "bucket_and_instances (ex_body [''k1'', ''k3'']) = Inr (Some (JStr ''b'', ?ks))"
    by code_simp
  have hl: "healthlake ?w (endpoint_base ?w @ ''ImagingStudy'') (imagingstudy_fhir st')
      = Inr (201, ''created'')"
    by (simp add: ex_world_def)
  have eb: "endpoint_base ?w @ ''ImagingStudy'' = ''https://healthlake.example/r4/ImagingStudy''"
    by (simp add: ex_world_def)
  have sh: "show_int 201 = ''201''" by code_simp
  note t = handler_first_record_only [of ?w "Inr (ex_body [''k1'', ''k3''])"
      "[Inr (ex_body [''k2'']), Inl ValueError]" "ex_body [''k1'', ''k3'']" "JStr ''b''" ?ks st "[?m]" st'
      "''ImagingStudy''" 201 "''created''" "[Inr (ex_body [''k2'']), Inl ValueError]"]
  from t have 1: "sqs_lambda_handler ?w
     [Inr (ex_body [''k1'', ''k3'']), Inr (ex_body [''k2'']), Inl ValueError]
     = sqs_lambda_handler ?w [Inr (ex_body [''k1'', ''k3''])]"
    by blast
  from t have 2: "\<exists>res eff. handle_payload ?w (Inr (ex_body [''k1'', ''k3'']))
           = (map_sum id Return res, eff)
         \<and> sqs_lambda_handler ?w
             [Inr (ex_body [''k1'', ''k3'']), Inr (ex_body [''k2'']), Inl ValueError]
           = (map_sum id Some res, eff)"
    by blast
  from t [THEN conjunct2, THEN conjunct2] bi a st' rt hl have 3: "sqs_lambda_handler ?w
             [Inr (ex_body [''k1'', ''k3'']), Inr (ex_body [''k2'']), Inl ValueError]
           = (Inr (Some \<lparr>statusCode = 201, headers = [(''Content-Type'', ''text/plain'')],
                          body = ''POST to HealthLake returned  201,created'' @ [CHR 0x0A]\<rparr>),
              \<lparr>sent = [?m],
               posted = [(''https://healthlake.example/r4/ImagingStudy'', imagingstudy_fhir st')]\<rparr>)"
    unfolding eb sh by simp
  have "\<exists>st st'. Study_init ?w (JStr ''b'') ?ks = (Inr st, [?m])
         \<and> imagingstudy st (s3_template ?w) = Inr st'
         \<and> map fragment_uid (case getitem (imagingstudy_fhir st') (KStr ''series'') of
                                 Inr (JList frags) \<Rightarrow> frags | other \<Rightarrow> [])
             = [Inr (JStr ''ser1'')]
         \<and> sqs_lambda_handler ?w
             [Inr (ex_body [''k1'', ''k3'']), Inr (ex_body [''k2'']), Inl ValueError]
           = (Inr (Some \<lparr>statusCode = 201, headers = [(''Content-Type'', ''text/plain'')],
                          body = ''POST to HealthLake returned  201,created'' @ [CHR 0x0A]\<rparr>),
              \<lparr>sent = [?m],
               posted = [(''https://healthlake.example/r4/ImagingStudy'', imagingstudy_fhir st')]\<rparr>)"
    by (rule exI [of _ st], rule exI [of _ st']) (intro conjI a st' fr 3)
  with 1 2 show ?thesis by (intro conjI)
qed

end
